theory Spec2Isabelle
  imports Complex_Main
begin

section \<open>The quadrotor environment of safe-control-gym\<close>

text \<open>
  A shallow embedding of \<^verbatim>\<open>safe_control_gym/envs/gym_pybullet_drones/quadrotor.py\<close>
  (class \<^verbatim>\<open>Quadrotor\<close>). Floating-point numbers are read as the real numbers they
  denote, Python integers as \<open>int\<close>, one-dimensional arrays as lists, two-dimensional
  arrays as lists of rows. The dynamics of the symbolic model round the result of every
  operation to binary64, as the machine does; elsewhere the operations are those of the
  real numbers. Every \<^verbatim>\<open>raise\<close>, failed \<^verbatim>\<open>assert\<close> and out-of-range index of the
  source is a value \<open>Inl e\<close> of the result type \<open>error + 'a\<close>.
\<close>

subsection \<open>Enumerations, errors and array helpers\<close>

datatype QuadType = ONE_D | TWO_D | THREE_D

datatype Cost = RL_REWARD | QUADRATIC | COMPETITION

text \<open>
  \<^verbatim>\<open>self.TASK\<close> and \<^verbatim>\<open>self.X_GOAL\<close> are set together in \<^verbatim>\<open>__init__\<close> (lines 246-332):
  under \<^verbatim>\<open>Task.STABILIZATION\<close> the goal is one state vector, under
  \<^verbatim>\<open>Task.TRAJ_TRACKING\<close> it is an array with one goal state per control step. The
  task carries its goal, so a branch on the task reads a goal of the right shape.
\<close>

datatype Task = STABILIZATION "real list" | TRAJ_TRACKING "real list list"

datatype error = ValueError | AssertionError | IndexError | KeyError | RuntimeError

text \<open>Sequencing of fallible computations: the first error is the result.\<close>

definition bind :: "error + 'a \<Rightarrow> ('a \<Rightarrow> error + 'b) \<Rightarrow> error + 'b" where
  "bind m f = (case m of Inl e \<Rightarrow> Inl e | Inr x \<Rightarrow> f x)"

text \<open>
  Indexing an array along its first axis with a Python integer: indices from \<open>- n\<close> to
  \<open>-1\<close> count from the end, anything outside \<open>- n .. n - 1\<close> raises \<^verbatim>\<open>IndexError\<close>.
\<close>

definition np_index :: "'a list \<Rightarrow> int \<Rightarrow> error + 'a" where
  "np_index xs i =
     (let n = int (length xs) in
      if 0 \<le> i \<and> i < n then Inr (xs ! nat i)
      else if - n \<le> i \<and> i < 0 then Inr (xs ! nat (n + i))
      else Inl IndexError)"

text \<open>
  An element-wise operation on two one-dimensional arrays with numpy's broadcasting:
  equal lengths, or one operand of length one; any other pair of shapes raises
  \<^verbatim>\<open>ValueError\<close>.
\<close>

definition np_broadcast :: "('a \<Rightarrow> 'b \<Rightarrow> 'c) \<Rightarrow> 'a list \<Rightarrow> 'b list \<Rightarrow> error + 'c list" where
  "np_broadcast f xs ys =
     (if length xs = length ys then Inr (map2 f xs ys)
      else if length xs = 1 then Inr (map (f (hd xs)) ys)
      else if length ys = 1 then Inr (map (\<lambda>x. f x (hd ys)) xs)
      else Inl ValueError)"

definition np_any :: "int list \<Rightarrow> bool" where
  "np_any xs = list_ex (\<lambda>x. x \<noteq> 0) xs"

subsection \<open>Vectors and matrices of the cost\<close>

definition vec_sub :: "real list \<Rightarrow> real list \<Rightarrow> real list" where
  "vec_sub xs ys = map2 (-) xs ys"

definition vec_scale :: "real \<Rightarrow> real list \<Rightarrow> real list" where
  "vec_scale c xs = map ((*) c) xs"

definition dot :: "real list \<Rightarrow> real list \<Rightarrow> real" where
  "dot xs ys = sum_list (map2 (*) xs ys)"

text \<open>Row vector times matrix.\<close>

definition column :: "real list list \<Rightarrow> nat \<Rightarrow> real list" where
  "column M j = map (\<lambda>row. row ! j) M"

definition vec_mat :: "real list \<Rightarrow> real list list \<Rightarrow> real list" where
  "vec_mat v M =
     (case M of [] \<Rightarrow> [] | row # _ \<Rightarrow> map (\<lambda>j. dot v (column M j)) [0..<length row])"

definition is_matrix :: "nat \<Rightarrow> nat \<Rightarrow> real list list \<Rightarrow> bool" where
  "is_matrix n m M = (length M = n \<and> list_all (\<lambda>row. length row = m) M)"

subsection \<open>Arithmetic of the symbolic model\<close>

text \<open>
  The dynamics are evaluated in IEEE 754 binary64 arithmetic: numpy and Python compute the
  constants and the hover input, CasADi evaluates the expression. A binary64 number is
  read as the real number it denotes, and every operation of the source is the real
  operation followed by the rounding \<open>binary64\<close> to the nearest number with a 53-bit
  significand, ties to the even significand.

  The rounding \<open>binary64\<close> has no bound on the exponent: it is binary64 rounding as long as no
  result overflows or falls into the subnormal range. The elementary functions are taken
  as correctly rounded; what is used of them below is their value at \<open>0\<close>, which every
  implementation returns exactly, and \<open>sqrt\<close>, which IEEE 754 rounds correctly. Negation
  is exact.
\<close>

definition round_even :: "real \<Rightarrow> int" where
  "round_even r =
     (let f = \<lfloor>r\<rfloor>; d = r - real_of_int f in
      if d < 1 / 2 then f
      else if 1 / 2 < d then f + 1
      else if even f then f else f + 1)"

definition binary64 :: "real \<Rightarrow> real" where
  "binary64 x =
     (if x = 0 then 0
      else (let e = \<lfloor>log 2 \<bar>x\<bar>\<rfloor>; ulp = 2 powr real_of_int (e - 52)
            in real_of_int (round_even (x / ulp)) * ulp))"

definition add64 :: "real \<Rightarrow> real \<Rightarrow> real" where
  "add64 x y = binary64 (x + y)"

definition sub64 :: "real \<Rightarrow> real \<Rightarrow> real" where
  "sub64 x y = binary64 (x - y)"

definition mul64 :: "real \<Rightarrow> real \<Rightarrow> real" where
  "mul64 x y = binary64 (x * y)"

definition div64 :: "real \<Rightarrow> real \<Rightarrow> real" where
  "div64 x y = binary64 (x / y)"

definition sin64 :: "real \<Rightarrow> real" where
  "sin64 x = binary64 (sin x)"

definition cos64 :: "real \<Rightarrow> real" where
  "cos64 x = binary64 (cos x)"

definition tan64 :: "real \<Rightarrow> real" where
  "tan64 x = binary64 (tan x)"

definition sqrt64 :: "real \<Rightarrow> real" where
  "sqrt64 x = binary64 (sqrt x)"

text \<open>
  A binary64 number away from the ends of the exponent range: the values for which the
  rounding above is the machine's.
\<close>

definition is_binary64 :: "real \<Rightarrow> bool" where
  "is_binary64 x = (binary64 x = x \<and> 1 / 2 ^ 500 \<le> \<bar>x\<bar> \<and> \<bar>x\<bar> \<le> 2 ^ 500)"

text \<open>
  Sum of products accumulated from zero, matrix times column vector, matrix times matrix,
  element-wise difference and quotient, every operation rounded.
\<close>

definition dot64 :: "real list \<Rightarrow> real list \<Rightarrow> real" where
  "dot64 xs ys = foldl add64 0 (map2 mul64 xs ys)"

definition mat_vec64 :: "real list list \<Rightarrow> real list \<Rightarrow> real list" where
  "mat_vec64 M v = map (\<lambda>row. dot64 row v) M"

definition mat_mul64 :: "real list list \<Rightarrow> real list list \<Rightarrow> real list list" where
  "mat_mul64 M N =
     map (\<lambda>row. case N of [] \<Rightarrow> [] | r # _ \<Rightarrow> map (\<lambda>j. dot64 row (column N j)) [0..<length r]) M"

definition vec_sub64 :: "real list \<Rightarrow> real list \<Rightarrow> real list" where
  "vec_sub64 xs ys = map2 sub64 xs ys"

definition vec_div64 :: "real list \<Rightarrow> real \<Rightarrow> real list" where
  "vec_div64 xs c = map (\<lambda>x. div64 x c) xs"

text \<open>\<^verbatim>\<open>cs.skew\<close>: the cross-product matrix of a 3-vector.\<close>

definition skew :: "real list \<Rightarrow> real list list" where
  "skew v = [[0, - (v ! 2), v ! 1], [v ! 2, 0, - (v ! 0)], [- (v ! 1), v ! 0, 0]]"

subsection \<open>The symbolic model (\<^verbatim>\<open>_setup_symbolic\<close>, lines 656-784)\<close>

text \<open>
  The attributes \<^verbatim>\<open>_setup_symbolic\<close> reads: \<^verbatim>\<open>self.MASS\<close>, \<^verbatim>\<open>self.GRAVITY_ACC\<close>,
  \<^verbatim>\<open>self.L\<close>, the diagonal of \<^verbatim>\<open>self.J\<close>, \<^verbatim>\<open>self.KM\<close> and \<^verbatim>\<open>self.KF\<close>.
\<close>

record drone =
  MASS :: real
  GRAVITY_ACC :: real
  L :: real
  J_xx :: real
  J_yy :: real
  J_zz :: real
  KM :: real
  KF :: real

definition binary64_drone :: "drone \<Rightarrow> bool" where
  "binary64_drone d =
     (is_binary64 (MASS d) \<and> is_binary64 (GRAVITY_ACC d) \<and> is_binary64 (L d)
      \<and> is_binary64 (J_xx d) \<and> is_binary64 (J_yy d) \<and> is_binary64 (J_zz d)
      \<and> is_binary64 (KM d) \<and> is_binary64 (KF d))"

definition nx :: "QuadType \<Rightarrow> nat" where
  "nx qt = (case qt of ONE_D \<Rightarrow> 2 | TWO_D \<Rightarrow> 6 | THREE_D \<Rightarrow> 12)"

definition nu :: "QuadType \<Rightarrow> nat" where
  "nu qt = (case qt of ONE_D \<Rightarrow> 1 | TWO_D \<Rightarrow> 2 | THREE_D \<Rightarrow> 4)"

text \<open>
  Modelled from the spec: \<^verbatim>\<open>csRotXYZ\<close> of
  \<^verbatim>\<open>safe_control_gym.math_and_models.transformations\<close> is not among the sources. The
  spec calls it the body-to-world rotation in the Euler-angle convention of the physics
  engine's axis order: for roll \<open>phi\<close>, pitch \<open>theta\<close> and yaw \<open>psi\<close> about the fixed
  axes X, Y, Z it is the product \<open>Rz psi * Ry theta * Rx phi\<close>. The dynamics below take
  the rotation as a parameter; this definition is one instance of it.
\<close>

definition csRotXYZ :: "real \<Rightarrow> real \<Rightarrow> real \<Rightarrow> real list list" where
  "csRotXYZ phi theta psi =
     mat_mul64 (mat_mul64
       [[cos64 psi, - sin64 psi, 0], [sin64 psi, cos64 psi, 0], [0, 0, 1]]
       [[cos64 theta, 0, sin64 theta], [0, 1, 0], [- sin64 theta, 0, cos64 theta]])
       [[1, 0, 0], [0, cos64 phi, - sin64 phi], [0, sin64 phi, cos64 phi]]"

text \<open>
  \<^verbatim>\<open>X_dot\<close> for the three fidelities, as a function of the numeric state \<open>X\<close> and the input
  \<open>U\<close>. The operations stand in the order Python gives them: \<^verbatim>\<open>*\<close>,
  \<^verbatim>\<open>/\<close> and \<^verbatim>\<open>@\<close> associate to the left, as do \<^verbatim>\<open>+\<close> and \<^verbatim>\<open>-\<close>. An argument whose
  length is not the declared dimension is rejected (\<^verbatim>\<open>RuntimeError\<close> of the CasADi
  function call). Division is HOL's total division: statements about the dynamics assume
  the divisors (mass, inertia, \<^verbatim>\<open>KF\<close>) non-zero.
\<close>

definition dyn_eqn_1d :: "drone \<Rightarrow> real list \<Rightarrow> real list \<Rightarrow> real list" where
  "dyn_eqn_1d d X U =
     (let m = MASS d; g = GRAVITY_ACC d;
          z = X ! 0; z_dot = X ! 1;
          T = U ! 0
      in [z_dot, sub64 (div64 T m) g])"

definition dyn_eqn_2d :: "drone \<Rightarrow> real list \<Rightarrow> real list \<Rightarrow> real list" where
  "dyn_eqn_2d d X U =
     (let m = MASS d; g = GRAVITY_ACC d; l = L d; Iyy = J_yy d;
          x = X ! 0; x_dot = X ! 1; z = X ! 2; z_dot = X ! 3; theta = X ! 4; theta_dot = X ! 5;
          T1 = U ! 0; T2 = U ! 1
      in [x_dot,
          div64 (mul64 (sin64 theta) (add64 T1 T2)) m,
          z_dot,
          sub64 (div64 (mul64 (cos64 theta) (add64 T1 T2)) m) g,
          theta_dot,
          div64 (div64 (mul64 l (sub64 T2 T1)) Iyy) (sqrt64 2)])"

definition dyn_eqn_3d ::
  "drone \<Rightarrow> (real \<Rightarrow> real \<Rightarrow> real \<Rightarrow> real list list) \<Rightarrow> real list \<Rightarrow> real list
     \<Rightarrow> real list" where
  "dyn_eqn_3d d RotXYZ X U =
     (let m = MASS d; g = GRAVITY_ACC d; l = L d; Iyy = J_yy d;
          Ixx = J_xx d; Izz = J_zz d;
          J = [[Ixx, 0, 0], [0, Iyy, 0], [0, 0, Izz]];
          Jinv = [[div64 1 Ixx, 0, 0], [0, div64 1 Iyy, 0], [0, 0, div64 1 Izz]];
          gamma = div64 (KM d) (KF d);
          x = X ! 0; x_dot = X ! 1; y = X ! 2; y_dot = X ! 3; z = X ! 4; z_dot = X ! 5;
          phi = X ! 6; theta = X ! 7; psi = X ! 8; p = X ! 9; q = X ! 10; r = X ! 11;
          Rob = RotXYZ phi theta psi;
          f1 = U ! 0; f2 = U ! 1; f3 = U ! 2; f4 = U ! 3;
          oVdot_cg_o =
            vec_sub64
              (vec_div64
                 (mat_vec64 Rob [0, 0, add64 (add64 (add64 f1 f2) f3) f4]) m)
              [0, 0, g];
          pos_ddot = oVdot_cg_o;
          pos_dot = [x_dot, y_dot, z_dot];
          Mb = [mul64 (div64 l (sqrt64 2))
                  (sub64 (sub64 (add64 f1 f2) f3) f4),
                mul64 (div64 l (sqrt64 2))
                  (sub64 (add64 (add64 (- f1) f2) f3) f4),
                mul64 gamma (sub64 (add64 (sub64 f1 f2) f3) f4)];
          rate_dot =
            mat_vec64 Jinv
              (vec_sub64 Mb (mat_vec64 (mat_mul64 (skew [p, q, r]) J) [p, q, r]));
          ang_dot = mat_vec64
                      [[1, mul64 (sin64 phi) (tan64 theta),
                           mul64 (cos64 phi) (tan64 theta)],
                       [0, cos64 phi, - sin64 phi],
                       [0, div64 (sin64 phi) (cos64 theta),
                           div64 (cos64 phi) (cos64 theta)]]
                      [p, q, r]
      in [pos_dot ! 0, pos_ddot ! 0, pos_dot ! 1, pos_ddot ! 1, pos_dot ! 2, pos_ddot ! 2]
         @ ang_dot @ rate_dot)"

definition dyn_eqn ::
  "QuadType \<Rightarrow> drone \<Rightarrow> (real \<Rightarrow> real \<Rightarrow> real \<Rightarrow> real list list) \<Rightarrow> real list
     \<Rightarrow> real list \<Rightarrow> error + real list" where
  "dyn_eqn qt d RotXYZ X U =
     (if length X = nx qt \<and> length U = nu qt then
        Inr (case qt of
               ONE_D \<Rightarrow> dyn_eqn_1d d X U
             | TWO_D \<Rightarrow> dyn_eqn_2d d X U
             | THREE_D \<Rightarrow> dyn_eqn_3d d RotXYZ X U)
      else Inl RuntimeError)"

text \<open>
  The hover equilibrium of \<^verbatim>\<open>__init__\<close> (lines 245 and 334-336): \<^verbatim>\<open>X_EQ\<close> is the zero
  state, \<^verbatim>\<open>U_EQ = U_GOAL\<close> is
  \<^verbatim>\<open>np.ones(self.action_dim) * self.MASS * self.GRAVITY_ACC / self.action_dim\<close>.
\<close>

definition U_GOAL_of :: "QuadType \<Rightarrow> drone \<Rightarrow> real list" where
  "U_GOAL_of qt d =
     map (\<lambda>one. div64 (mul64 (mul64 one (MASS d)) (GRAVITY_ACC d)) (real (nu qt)))
       (replicate (nu qt) 1)"

definition X_EQ :: "QuadType \<Rightarrow> real list" where
  "X_EQ qt = replicate (nx qt) 0"

definition U_EQ :: "QuadType \<Rightarrow> drone \<Rightarrow> real list" where
  "U_EQ qt d = U_GOAL_of qt d"

text \<open>
  The component of \<^verbatim>\<open>X_dot\<close> that balances thrust against gravity: the vertical
  acceleration.
\<close>

definition gravity_index :: "QuadType \<Rightarrow> nat" where
  "gravity_index qt = (case qt of ONE_D \<Rightarrow> 1 | TWO_D \<Rightarrow> 3 | THREE_D \<Rightarrow> 5)"

text \<open>
  The cost expression (line 776). Python's \<^verbatim>\<open>*\<close> and \<^verbatim>\<open>@\<close> have the same precedence
  and associate to the left: \<^verbatim>\<open>0.5 * (X - Xr).T @ Q @ (X - Xr)\<close> scales the row vector,
  multiplies it by \<open>Q\<close> and then by the column vector.
\<close>

definition cost_func ::
  "real list \<Rightarrow> real list \<Rightarrow> real list \<Rightarrow> real list \<Rightarrow> real list list \<Rightarrow> real list list \<Rightarrow> real" where
  "cost_func X U Xr Ur Qm Rm =
     dot (vec_mat (vec_scale 0.5 (vec_sub X Xr)) Qm) (vec_sub X Xr)
     + dot (vec_mat (vec_scale 0.5 (vec_sub U Ur)) Rm) (vec_sub U Ur)"

text \<open>
  \<^verbatim>\<open>self.symbolic.loss(x=, u=, Xr=, Ur=, Q=, R=)["l"]\<close>: the cost expression evaluated
  at numeric arguments of the declared shapes (\<open>nx\<close>, \<open>nu\<close>, \<open>nx \<times> nx\<close>, \<open>nu \<times> nu\<close>).
\<close>

definition loss ::
  "QuadType \<Rightarrow> real list \<Rightarrow> real list \<Rightarrow> real list \<Rightarrow> real list \<Rightarrow> real list list \<Rightarrow> real list list
     \<Rightarrow> error + real" where
  "loss qt x u Xr Ur Qm Rm =
     (if length x = nx qt \<and> length Xr = nx qt \<and> length u = nu qt \<and> length Ur = nu qt
         \<and> is_matrix (nx qt) (nx qt) Qm \<and> is_matrix (nu qt) (nu qt) Rm
      then Inr (cost_func x u Xr Ur Qm Rm)
      else Inl RuntimeError)"

text \<open>
  The quadratic form in the words of the specification:
  \<open>e\<^sup>T M e\<close> is the double sum of \<open>e\<^sub>i * M\<^sub>i\<^sub>j * e\<^sub>j\<close>.
\<close>

definition quadratic_form_spec :: "real list \<Rightarrow> real list list \<Rightarrow> real" where
  "quadratic_form_spec e M = (\<Sum>i<length e. \<Sum>j<length e. e ! i * (M ! i ! j) * e ! j)"

definition loss_spec ::
  "real list \<Rightarrow> real list \<Rightarrow> real list \<Rightarrow> real list \<Rightarrow> real list list \<Rightarrow> real list list \<Rightarrow> real" where
  "loss_spec x u xr ur Qm Rm =
     0.5 * quadratic_form_spec (vec_sub x xr) Qm + 0.5 * quadratic_form_spec (vec_sub u ur) Rm"

subsection \<open>The environment object and its collaborators\<close>

type_synonym vec3 = "real \<times> real \<times> real"

definition vec3_add :: "vec3 \<Rightarrow> vec3 \<Rightarrow> vec3" where
  "vec3_add a b = (case a of (a1, a2, a3) \<Rightarrow> case b of (b1, b2, b3) \<Rightarrow> (a1 + b1, a2 + b2, a3 + b3))"

text \<open>
  A row of \<^verbatim>\<open>self.GATES\<close> is \<^verbatim>\<open>[x, y, z, roll, pitch, yaw, type]\<close>, a row of
  \<^verbatim>\<open>self.OBSTACLES\<close> is \<^verbatim>\<open>[x, y, z, roll, pitch, yaw]\<close>; a pose (a row of
  \<^verbatim>\<open>self._gates_pose\<close> or \<^verbatim>\<open>self.obstacle_poses\<close>) is a position and three Euler
  angles.
\<close>

record gate =
  gate_xyz :: vec3
  gate_rpy :: vec3
  gate_type :: real

type_synonym pose = "vec3 \<times> vec3"

text \<open>\<^verbatim>\<open>gym.spaces.Box\<close>: the two bound arrays.\<close>

record box =
  low :: "real list"
  high :: "real list"

text \<open>
  The physics engine as one control step sees it. \<open>loadURDF k\<close> is the body id the
  \<open>k\<close>-th \<^verbatim>\<open>p.loadURDF\<close> call of a reset returns; \<open>getContactPoints b\<close> tells whether
  \<^verbatim>\<open>p.getContactPoints(bodyA=b, bodyB=drone)\<close> is non-empty; \<open>rayTestBatch fr to\<close> is
  the hit fraction \<^verbatim>\<open>r[2]\<close> of every ray of \<^verbatim>\<open>p.rayTestBatch\<close>; \<open>drone_state\<close> is the
  vector \<^verbatim>\<open>_get_observation\<close> stores in \<^verbatim>\<open>self.state\<close>.
\<close>

record pybullet =
  loadURDF :: "nat \<Rightarrow> int"
  getContactPoints :: "int \<Rightarrow> bool"
  rayTestBatch :: "vec3 list \<Rightarrow> vec3 list \<Rightarrow> real list"
  drone_state :: "real list"

text \<open>
  The random source of a reset: \<open>distrib k\<close> is the \<open>k\<close>-th value drawn by
  \<^verbatim>\<open>distrib(*d_args, **d_kwargs)\<close>, the other two are the results of
  \<^verbatim>\<open>_randomize_values_by_info\<close> (a method of the base class) on the inertial
  properties \<^verbatim>\<open>[M, Ixx, Iyy, Izz]\<close> and on the initial values.
\<close>

record np_random =
  distrib :: "nat \<Rightarrow> real"
  randomize_inertial :: "real list \<Rightarrow> real list"
  randomize_init :: "(string \<times> real) list \<Rightarrow> (string \<times> real) list"

record quadrotor =
  QUAD_TYPE :: QuadType
  TASK :: Task
  COST :: Cost
  inertial :: drone
  U_GOAL :: "real list"
  Q :: "real list list"
  R :: "real list list"
  rew_state_weight :: "real list"
  rew_act_weight :: "real list"
  rew_exponential :: bool
  done_on_out_of_bound :: bool
  DONE_ON_COLLISION :: bool
  DONE_ON_COMPLETION :: bool
  obs_goal_horizon :: int
  state_space :: box
  observation_space :: box
  PYB_FREQ :: int
  CTRL_FREQ :: int
  stabilization_goal_tolerance :: real
  GATES :: "gate list"
  OBSTACLES :: "pose list"
  PLANE_ID :: int
  RANDOMIZED_GATES_AND_OBS :: bool
  RANDOMIZED_INERTIAL_PROP :: bool
  RANDOMIZED_INIT :: bool
  INIT_ATTR :: "string \<Rightarrow> real"
  GATES_IDS :: "int list"
  OBSTACLES_IDS :: "int list"
  gates_pose :: "pose list"
  obstacle_poses :: "pose list"
  state :: "real list"
  current_preprocessed_action :: "real list"
  pyb_step_counter :: int
  ctrl_step_counter :: int
  cnstr_violation :: bool
  current_gate :: int
  stepped_through_gate :: bool
  currently_collided :: bool
  at_goal_pos :: bool
  steps_at_goal_pos :: int
  task_completed :: bool

definition NUM_GATES :: "quadrotor \<Rightarrow> int" where
  "NUM_GATES self = int (length (GATES self))"

definition GATE_Z_LOW :: real where
  "GATE_Z_LOW = 0.525"

definition GATE_Z_HIGH :: real where
  "GATE_Z_HIGH = 1.0"

definition OBSTACLE_Z :: real where
  "OBSTACLE_Z = 1.05"

subsection \<open>Observation space (\<^verbatim>\<open>_set_observation_space\<close>, lines 941-965)\<close>

text \<open>
  The per-fidelity bound arrays \<open>lo\<close> and \<open>hi\<close> (lines 849-912) make the state space;
  the observation space repeats them when the goal is appended to the observation.
\<close>

definition set_observation_space :: "real list \<Rightarrow> real list \<Rightarrow> quadrotor \<Rightarrow> quadrotor" where
  "set_observation_space lo hi self =
     (let self1 = self\<lparr>state_space := \<lparr>low = lo, high = hi\<rparr>\<rparr>;
          concat_bounds =
            (case TASK self of
               TRAJ_TRACKING _ \<Rightarrow>
                 if COST self = RL_REWARD \<and> obs_goal_horizon self > 0
                 then (let mul = nat (1 + obs_goal_horizon self)
                       in (concat (replicate mul lo), concat (replicate mul hi)))
                 else (lo, hi)
             | STABILIZATION _ \<Rightarrow>
                 if COST self = RL_REWARD \<and> obs_goal_horizon self > 0
                 then (concat (replicate 2 lo), concat (replicate 2 hi))
                 else (lo, hi))
      in self1\<lparr>observation_space := \<lparr>low = fst concat_bounds, high = snd concat_bounds\<rparr>\<rparr>)"

subsection \<open>Termination (\<^verbatim>\<open>_get_done\<close>, lines 1117-1162)\<close>

definition done_mask :: "QuadType \<Rightarrow> int list" where
  "done_mask qt =
     (case qt of
        ONE_D \<Rightarrow> [1, 0]
      | TWO_D \<Rightarrow> [1, 0, 1, 0, 1, 0]
      | THREE_D \<Rightarrow> [1, 0, 1, 0, 1, 0, 1, 1, 1, 0, 0, 0])"

definition get_done :: "quadrotor \<Rightarrow> error + bool" where
  "get_done self =
     bind (if done_on_out_of_bound self then
             (let mask = done_mask (QUAD_TYPE self) in
              bind (np_broadcast (<) (state self) (low (state_space self))) (\<lambda>below.
              bind (np_broadcast (>) (state self) (high (state_space self))) (\<lambda>above.
              bind (np_broadcast (\<or>) below above) (\<lambda>out_of_bound.
              bind (np_broadcast (\<lambda>b m. (if b then 1 else 0) * m) out_of_bound mask) (\<lambda>masked.
              Inr (np_any masked))))))
           else Inr False)
       (\<lambda>out_of_bound.
          if out_of_bound then Inr True
          else if DONE_ON_COLLISION self \<and> currently_collided self then Inr True
          else if DONE_ON_COMPLETION self \<and> task_completed self then Inr True
          else Inr False)"

subsection \<open>Reward (\<^verbatim>\<open>_get_reward\<close>, lines 1037-1115)\<close>

definition np_sum :: "real list \<Rightarrow> real" where
  "np_sum xs = sum_list xs"

text \<open>\<^verbatim>\<open>np.sum(w * e * e)\<close> for one-dimensional \<open>w\<close> and \<open>e\<close>.\<close>

definition weighted_sq :: "real list \<Rightarrow> real list \<Rightarrow> error + real" where
  "weighted_sq w e =
     bind (np_broadcast (*) w e) (\<lambda>we.
     bind (np_broadcast (*) we e) (\<lambda>wee. Inr (np_sum wee)))"

definition get_reward :: "quadrotor \<Rightarrow> error + real" where
  "get_reward self =
     (case COST self of
        RL_REWARD \<Rightarrow>
          bind (np_broadcast (-) (current_preprocessed_action self) (U_GOAL self)) (\<lambda>act_error.
          bind (case TASK self of
                  STABILIZATION X_GOAL \<Rightarrow> np_broadcast (-) (state self) X_GOAL
                | TRAJ_TRACKING X_GOAL \<Rightarrow>
                    (let wp_idx = min (ctrl_step_counter self) (int (length X_GOAL) - 1) in
                     bind (np_index X_GOAL wp_idx) (\<lambda>goal. np_broadcast (-) (state self) goal)))
            (\<lambda>state_error.
          bind (weighted_sq (rew_state_weight self) state_error) (\<lambda>dist_state.
          bind (weighted_sq (rew_act_weight self) act_error) (\<lambda>dist_act.
            (let rew = - (dist_state + dist_act) in
             Inr (if rew_exponential self then exp rew else rew))))))
      | QUADRATIC \<Rightarrow>
          (case TASK self of
             STABILIZATION X_GOAL \<Rightarrow>
               bind (loss (QUAD_TYPE self) (state self) (current_preprocessed_action self)
                       X_GOAL (U_GOAL self) (Q self) (R self)) (\<lambda>l. Inr (- 1 * l))
           | TRAJ_TRACKING X_GOAL \<Rightarrow>
               bind (np_index X_GOAL (ctrl_step_counter self)) (\<lambda>goal.
               bind (loss (QUAD_TYPE self) (state self) (current_preprocessed_action self)
                       goal (U_GOAL self) (Q self) (R self)) (\<lambda>l. Inr (- 1 * l))))
      | COMPETITION \<Rightarrow>
          (let reward = 0;
               reward = (if stepped_through_gate self then reward + 100 else reward);
               reward = (if at_goal_pos self then reward + 100 else reward);
               reward = (if currently_collided self then reward - 1000 else reward);
               reward = (if cnstr_violation self then reward - 100 else reward)
           in Inr reward))"

subsection \<open>Per-step info and episode state (\<^verbatim>\<open>_get_info\<close>, lines 1164-1299)\<close>

text \<open>
  The entries of the info dictionary that the episode state machine writes. The mean
  squared error (lines 1175-1185) and the contents of the pose and visibility arrays
  (lines 1241-1269) are left out: they read the state and the engine and change no
  attribute. What is kept of lines 1242-1245 is their failure on an environment without
  gates or without obstacles, where \<^verbatim>\<open>np.array([])\<close> has one axis and \<^verbatim>\<open>[:, :6]\<close> and
  \<^verbatim>\<open>[:, 2]\<close> index two.
\<close>

record info =
  info_collision :: "int option \<times> bool"
  info_current_gate_id :: int
  info_at_goal_position :: bool
  info_task_completed :: bool

text \<open>
  Collisions (lines 1191-1204): the first body of
  \<^verbatim>\<open>GATES_IDS + OBSTACLES_IDS + [PLANE_ID]\<close> in contact with the drone.
\<close>

definition collisions :: "pybullet \<Rightarrow> quadrotor \<Rightarrow> (int option \<times> bool) \<times> quadrotor" where
  "collisions p self =
     (case find (getContactPoints p) (GATES_IDS self @ OBSTACLES_IDS self @ [PLANE_ID self]) of
        Some GATE_OBS_ID \<Rightarrow> ((Some GATE_OBS_ID, True), self\<lparr>currently_collided := True\<rparr>)
      | None \<Rightarrow> ((None, False), self\<lparr>currently_collided := False\<rparr>))"

text \<open>The condition of line 1207-1211 under which the passage check runs.\<close>

definition gate_check_enabled :: "quadrotor \<Rightarrow> bool" where
  "gate_check_enabled self =
     (real_of_int (pyb_step_counter self) > 0.5 * real_of_int (PYB_FREQ self)
      \<and> NUM_GATES self > 0
      \<and> current_gate self < NUM_GATES self)"

text \<open>
  The ray query of lines 1212-1231 for the current gate: the start and end points of the
  seven vertical rays across the gate's aperture.
\<close>

definition gate_rays :: "quadrotor \<Rightarrow> error + (vec3 list \<times> vec3 list)" where
  "gate_rays self =
     bind (np_index (gates_pose self) (current_gate self)) (\<lambda>gp.
     bind (np_index (GATES self) (current_gate self)) (\<lambda>g.
     bind (if gate_type g = 0 then Inr GATE_Z_HIGH
           else if gate_type g = 1 then Inr GATE_Z_LOW
           else Inl ValueError) (\<lambda>height.
       (case gp of ((x, y, _), (_, _, rot)) \<Rightarrow>
          (let half_length = 0.1875;
               delta_x = 0.05 * cos rot;
               delta_y = 0.05 * sin rot;
               fr = (x, y, height - half_length)
                    # concat (map (\<lambda>i. [(x + i * delta_x, y + i * delta_y, height - half_length),
                                         (x - i * delta_x, y - i * delta_y, height - half_length)])
                               [1, 2, 3]);
               to = (x, y, height + half_length)
                    # concat (map (\<lambda>i. [(x + i * delta_x, y + i * delta_y, height + half_length),
                                         (x - i * delta_x, y - i * delta_y, height + half_length)])
                               [1, 2, 3])
           in Inr (fr, to))))))"

text \<open>
  Gates progress (lines 1206-1237). The second component of the result lists the
  \<^verbatim>\<open>p.rayTestBatch\<close> calls made.
\<close>

definition gates_progress ::
  "pybullet \<Rightarrow> quadrotor \<Rightarrow> error + (quadrotor \<times> (vec3 list \<times> vec3 list) list)" where
  "gates_progress p self =
     (if gate_check_enabled self then
        bind (gate_rays self) (\<lambda>(fr, to).
          (let rays = rayTestBatch p fr to;
               self1 = self\<lparr>stepped_through_gate := False\<rparr>
           in Inr (if list_ex (\<lambda>r. r < 0.9999) rays
                   then self1\<lparr>current_gate := current_gate self1 + 1,
                              stepped_through_gate := True\<rparr>
                   else self1,
                   [(fr, to)])))
      else Inr (self, []))"

text \<open>
  \<^verbatim>\<open>np.linalg.norm(quad_xyz - goal_xyz)\<close> (lines 1277-1280). Under stabilization the
  goal entries are scalars; under trajectory tracking they are rows of the goal array,
  and the difference broadcasts the position against each row.
\<close>

definition goal_distance :: "quadrotor \<Rightarrow> error + real" where
  "goal_distance self =
     bind (np_index (state self) 0) (\<lambda>s0.
     bind (np_index (state self) 2) (\<lambda>s2.
     bind (np_index (state self) 4) (\<lambda>s4.
       (case TASK self of
          STABILIZATION X_GOAL \<Rightarrow>
            bind (np_index X_GOAL 0) (\<lambda>g0.
            bind (np_index X_GOAL 2) (\<lambda>g2.
            bind (np_index X_GOAL 4) (\<lambda>g4.
              Inr (sqrt ((s0 - g0)\<^sup>2 + (s2 - g2)\<^sup>2 + (s4 - g4)\<^sup>2)))))
        | TRAJ_TRACKING X_GOAL \<Rightarrow>
            bind (np_index X_GOAL 0) (\<lambda>g0.
            bind (np_index X_GOAL 2) (\<lambda>g2.
            bind (np_index X_GOAL 4) (\<lambda>g4.
            bind (np_broadcast (-) [s0, s2, s4] g0) (\<lambda>d0.
            bind (np_broadcast (-) [s0, s2, s4] g2) (\<lambda>d2.
            bind (np_broadcast (-) [s0, s2, s4] g4) (\<lambda>d4.
              Inr (sqrt (np_sum (map (\<lambda>d. d\<^sup>2) (d0 @ d2 @ d4))))))))))))))"

text \<open>Final goal position (lines 1272-1297).\<close>

definition goal_position :: "quadrotor \<Rightarrow> error + ((bool \<times> bool) \<times> quadrotor)" where
  "goal_position self =
     (if current_gate self = NUM_GATES self then
        (case QUAD_TYPE self of
           THREE_D \<Rightarrow>
             bind (goal_distance self) (\<lambda>dist.
               (let self1 = (if dist < stabilization_goal_tolerance self
                             then self\<lparr>at_goal_pos := True,
                                        steps_at_goal_pos := steps_at_goal_pos self + 1\<rparr>
                             else self\<lparr>at_goal_pos := False, steps_at_goal_pos := 0\<rparr>);
                    self2 = (if steps_at_goal_pos self1 > CTRL_FREQ self1 * 2
                             then self1\<lparr>task_completed := True\<rparr> else self1)
                in Inr ((at_goal_pos self2, task_completed self2), self2)))
         | _ \<Rightarrow> Inr ((False, False), self))
      else Inr ((False, False), self))"

definition get_info ::
  "pybullet \<Rightarrow> quadrotor \<Rightarrow> error + (info \<times> quadrotor \<times> (vec3 list \<times> vec3 list) list)" where
  "get_info p self =
     (case collisions p self of (collision, self1) \<Rightarrow>
        bind (gates_progress p self1) (\<lambda>(self2, ray_calls).
          if GATES self2 = [] \<or> OBSTACLES self2 = [] then Inl IndexError
          else
          (let current_gate_id =
                 (if current_gate self2 < NUM_GATES self2 then current_gate self2 else - 1)
           in bind (goal_position self2) (\<lambda>((at_goal, completed), self3).
                Inr (\<lparr>info_collision = collision,
                      info_current_gate_id = current_gate_id,
                      info_at_goal_position = at_goal,
                      info_task_completed = completed\<rparr>,
                     self3, ray_calls)))))"

subsection \<open>Reset (\<^verbatim>\<open>reset\<close>, lines 374-578)\<close>

record reset_kwargs =
  initial_target_gate_id :: "int option"

text \<open>
  The arguments of \<^verbatim>\<open>p.resetBasePositionAndOrientation\<close> and \<^verbatim>\<open>p.resetBaseVelocity\<close>:
  the initial state of the episode.
\<close>

record init_state =
  INIT_XYZ :: vec3
  INIT_VEL :: vec3
  INIT_RPY :: vec3
  INIT_ANG_VEL :: vec3

definition INIT_STATE_LABELS :: "QuadType \<Rightarrow> string list" where
  "INIT_STATE_LABELS qt =
     (case qt of
        ONE_D \<Rightarrow> [''init_x'', ''init_x_dot'']
      | TWO_D \<Rightarrow> [''init_x'', ''init_x_dot'', ''init_z'', ''init_z_dot'', ''init_theta'',
                  ''init_theta_dot'']
      | THREE_D \<Rightarrow> [''init_x'', ''init_x_dot'', ''init_y'', ''init_y_dot'', ''init_z'',
                    ''init_z_dot'', ''init_phi'', ''init_theta'', ''init_psi'', ''init_p'',
                    ''init_q'', ''init_r''])"

definition dict_get :: "(string \<times> real) list \<Rightarrow> string \<Rightarrow> real \<Rightarrow> real" where
  "dict_get d k dflt = (case map_of d k of None \<Rightarrow> dflt | Some v \<Rightarrow> v)"

text \<open>
  The pose of the \<open>k\<close>-th body loaded by a reset (lines 402-413 and 449-459): the nominal
  pose moved up by the URDF height, and perturbed by three draws when randomization is on.
\<close>

definition placed :: "bool \<Rightarrow> (nat \<Rightarrow> real) \<Rightarrow> nat \<Rightarrow> real \<Rightarrow> pose \<Rightarrow> pose" where
  "placed randomized draw k height nominal =
     (let offset = (if randomized then (draw (3 * k), draw (3 * k + 1), height)
                    else (0, 0, height));
          pose_disturbance = (if randomized then (0, 0, draw (3 * k + 2)) else (0, 0, 0))
      in (vec3_add (fst nominal) offset, vec3_add (snd nominal) pose_disturbance))"

text \<open>The start inside the previous gate (lines 526-535).\<close>

definition gate_start :: "quadrotor \<Rightarrow> int \<Rightarrow> error + init_state" where
  "gate_start self init_gate_id =
     (if init_gate_id < NUM_GATES self then
        bind (np_index (gates_pose self) (init_gate_id - 1)) (\<lambda>ref_gate_pose.
          Inr \<lparr>INIT_XYZ = fst ref_gate_pose, INIT_VEL = (0, 0, 0),
               INIT_RPY = snd ref_gate_pose, INIT_ANG_VEL = (0, 0, 0)\<rparr>)
      else Inl AssertionError)"

text \<open>
  The nominal or randomized start (lines 537-550). \<open>INIT_ATTR self name\<close> is the attribute
  \<^verbatim>\<open>self.__dict__[name.upper()]\<close>.
\<close>

definition default_start :: "np_random \<Rightarrow> quadrotor \<Rightarrow> init_state" where
  "default_start rng self =
     (let init_values = map (\<lambda>init_name. (init_name, INIT_ATTR self init_name))
                          (INIT_STATE_LABELS (QUAD_TYPE self));
          init_values = (if RANDOMIZED_INIT self then randomize_init rng init_values
                         else init_values);
          val = (\<lambda>k. dict_get init_values k 0)
      in \<lparr>INIT_XYZ = (val ''init_x'', val ''init_y'', val ''init_z''),
          INIT_VEL = (val ''init_x_dot'', val ''init_y_dot'', val ''init_z_dot''),
          INIT_RPY = (val ''init_phi'', val ''init_theta'', val ''init_psi''),
          INIT_ANG_VEL = (if QUAD_TYPE self = TWO_D then (0, val ''init_theta_dot'', 0)
                          else (val ''init_p'', val ''init_q'', val ''init_r''))\<rparr>)"

definition initial_state :: "reset_kwargs \<Rightarrow> np_random \<Rightarrow> quadrotor \<Rightarrow> error + init_state" where
  "initial_state kwargs rng self =
     (case initial_target_gate_id kwargs of
        None \<Rightarrow> Inr (default_start rng self)
      | Some init_gate_id \<Rightarrow>
          if init_gate_id \<noteq> 0 then gate_start self init_gate_id
          else Inr (default_start rng self))"

text \<open>
  The reset. \<^verbatim>\<open>super().before_reset()\<close> and \<^verbatim>\<open>super()._reset_simulation()\<close> are
  methods of the base class: what they leave in \<^verbatim>\<open>self\<close> (the step counters among it)
  is the argument \<open>self\<close>. An environment without obstacles fails at line 432, where
  \<^verbatim>\<open>np.array([])\<close> has one axis and \<^verbatim>\<open>[:, 2]\<close> indexes two.
\<close>

definition reset ::
  "reset_kwargs \<Rightarrow> np_random \<Rightarrow> pybullet \<Rightarrow> quadrotor \<Rightarrow> error + (quadrotor \<times> init_state \<times> info)" where
  "reset kwargs rng p self =
     (let n_obstacles = length (OBSTACLES self);
          n_gates = length (GATES self);
          randomized = RANDOMIZED_GATES_AND_OBS self;
          poses = map (\<lambda>k. placed randomized (distrib rng) k 0.525 (OBSTACLES self ! k))
                    [0..<n_obstacles];
          self = self\<lparr>OBSTACLES_IDS := map (loadURDF p) [0..<n_obstacles]\<rparr>
      in
      if poses = [] then Inl IndexError
      else
      (let self = self\<lparr>obstacle_poses :=
                    map (\<lambda>ps. case ps of ((x, y, z), rpy) \<Rightarrow> ((x, y, OBSTACLE_Z), rpy)) poses\<rparr>
       in
       if list_ex (\<lambda>g. gate_type g \<noteq> 0 \<and> gate_type g \<noteq> 1) (GATES self) then Inl ValueError
       else
       (let self = self\<lparr>
              gates_pose :=
                map (\<lambda>k. let g = GATES self ! k in
                          placed randomized (distrib rng) (n_obstacles + k)
                            (if gate_type g = 0 then GATE_Z_HIGH else GATE_Z_LOW)
                            (gate_xyz g, gate_rpy g))
                  [0..<n_gates],
              GATES_IDS := map (\<lambda>k. loadURDF p (n_obstacles + k)) [0..<n_gates]\<rparr>;
            self = self\<lparr>current_gate :=
                     (case initial_target_gate_id kwargs of Some g \<Rightarrow> g | None \<Rightarrow> 0)\<rparr>;
            self = self\<lparr>stepped_through_gate := False, currently_collided := False,
                     at_goal_pos := False, steps_at_goal_pos := 0, task_completed := False\<rparr>;
            prop_values = [MASS (inertial self), J_xx (inertial self), J_yy (inertial self),
                           J_zz (inertial self)];
            prop_values = (if RANDOMIZED_INERTIAL_PROP self
                           then randomize_inertial rng prop_values else prop_values)
        in
        if RANDOMIZED_INERTIAL_PROP self \<and> list_ex (\<lambda>phy_quantity. phy_quantity < 0) prop_values
        then Inl ValueError
        else
          bind (initial_state kwargs rng self) (\<lambda>init.
            (let self = self\<lparr>state := drone_state p\<rparr> in
             bind (get_info p self) (\<lambda>(info, self, ray_calls). Inr (self, init, info)))))))"

subsection \<open>Step and episode (\<^verbatim>\<open>step\<close>, lines 580-631)\<close>

text \<open>
  What \<^verbatim>\<open>super().before_step\<close> and \<^verbatim>\<open>super()._advance_simulation\<close> (methods of the base
  class) leave in \<^verbatim>\<open>self\<close> before the observation is taken.
\<close>

record base_step =
  new_action :: "real list"
  new_pyb_step_counter :: int
  new_ctrl_step_counter :: int
  new_cnstr_violation :: bool

definition advance :: "base_step \<Rightarrow> pybullet \<Rightarrow> quadrotor \<Rightarrow> quadrotor" where
  "advance b p self =
     self\<lparr>current_preprocessed_action := new_action b,
          pyb_step_counter := new_pyb_step_counter b,
          ctrl_step_counter := new_ctrl_step_counter b,
          cnstr_violation := new_cnstr_violation b,
          state := drone_state p\<rparr>"

definition step ::
  "base_step \<Rightarrow> pybullet \<Rightarrow> quadrotor \<Rightarrow> error + (quadrotor \<times> real \<times> bool \<times> info)" where
  "step b p self =
     bind (get_info p (advance b p self)) (\<lambda>(info, self1, ray_calls).
     bind (get_done self1) (\<lambda>done.
     bind (get_reward self1) (\<lambda>rew.
       Inr (self1, rew, done, info))))"

text \<open>The environment after each step of a sequence of control steps.\<close>

fun run :: "(base_step \<times> pybullet) list \<Rightarrow> quadrotor \<Rightarrow> error + quadrotor list" where
  "run [] self = Inr []"
| "run (bp # rest) self =
     bind (step (fst bp) (snd bp) self) (\<lambda>(self1, rew, done, info).
     bind (run rest self1) (\<lambda>trace. Inr (self1 # trace)))"

text \<open>An episode: the environment after the reset and after each step.\<close>

definition episode ::
  "reset_kwargs \<Rightarrow> np_random \<Rightarrow> pybullet \<Rightarrow> (base_step \<times> pybullet) list \<Rightarrow> quadrotor
     \<Rightarrow> error + quadrotor list" where
  "episode kwargs rng p0 ticks self =
     bind (reset kwargs rng p0 self) (\<lambda>(self1, init, info).
     bind (run ticks self1) (\<lambda>trace. Inr (self1 # trace)))"

text \<open>
  The passage check detects a crossing: the check runs, and some ray of the query comes
  back with a hit fraction below \<open>0.9999\<close>. In a step the check sees the environment
  as the base class and the engine left it.
\<close>

definition crossing_detected :: "pybullet \<Rightarrow> quadrotor \<Rightarrow> bool" where
  "crossing_detected p self =
     (gate_check_enabled self
      \<and> (case gate_rays self of
           Inl e \<Rightarrow> False
         | Inr (fr, to) \<Rightarrow> list_ex (\<lambda>r. r < 0.9999) (rayTestBatch p fr to)))"

definition passage_detected :: "base_step \<Rightarrow> pybullet \<Rightarrow> quadrotor \<Rightarrow> bool" where
  "passage_detected b p self = crossing_detected p (advance b p self)"

definition detections :: "(base_step \<times> pybullet) list \<Rightarrow> quadrotor list \<Rightarrow> bool list" where
  "detections ticks states = map2 (\<lambda>bp self. passage_detected (fst bp) (snd bp) self) ticks states"

subsection \<open>Concrete environments\<close>

text \<open>
  The Crazyflie parameters, a three-dimensional racing environment with two gates and one
  obstacle, a one-dimensional tracking environment with three goal rows, and engines and
  steps to run them on.
\<close>

definition crazyflie :: drone where
  "crazyflie = \<lparr>MASS = 0.027, GRAVITY_ACC = 9.8, L = 0.0397, J_xx = 0.000014, J_yy = 0.000014,
     J_zz = 0.0000217, KM = 0.00000000794, KF = 0.0000000316\<rparr>"

text \<open>
  The drone whose parameters are the binary64 numbers nearest to the decimal parameters
  above, and the same drone with the mass nearest to \<open>0.03\<close>.
\<close>

definition crazyflie_binary64 :: drone where
  "crazyflie_binary64 =
     \<lparr>MASS = 7782220156096217 / 2 ^ 58,
      GRAVITY_ACC = 5516909543528858 / 2 ^ 49,
      L = 5721372966611478 / 2 ^ 57,
      J_xx = 8264141345021879 / 2 ^ 69,
      J_yy = 8264141345021879 / 2 ^ 69,
      J_zz = 6404709542391956 / 2 ^ 68,
      KM = 4799435503870078 / 2 ^ 79,
      KF = 4775256987477785 / 2 ^ 77\<rparr>"

definition heavier_binary64 :: drone where
  "heavier_binary64 = crazyflie_binary64\<lparr>MASS := 8646911284551352 / 2 ^ 58\<rparr>"

definition float32_max :: real where
  "float32_max = 340282346638528859811704183484516925440"

definition racing_env :: quadrotor where
  "racing_env =
     \<lparr>QUAD_TYPE = THREE_D,
      TASK = STABILIZATION [0, 0, - 2, 0, 1, 0, 0, 0, 0, 0, 0, 0],
      COST = COMPETITION,
      inertial = crazyflie,
      U_GOAL = [0.06615, 0.06615, 0.06615, 0.06615],
      Q = map (\<lambda>i. (replicate 12 0)[i := 1]) [0..<12],
      R = map (\<lambda>i. (replicate 4 0)[i := 1]) [0..<4],
      rew_state_weight = [1],
      rew_act_weight = [0.0001],
      rew_exponential = True,
      done_on_out_of_bound = True,
      DONE_ON_COLLISION = False,
      DONE_ON_COMPLETION = False,
      obs_goal_horizon = 0,
      state_space =
        \<lparr>low = [- 5, - float32_max, - 5, - float32_max, 0, - float32_max,
                 - 1.4835298, - 1.4835298, - 3.1415927, - float32_max, - float32_max, - float32_max],
         high = [5, float32_max, 5, float32_max, 2.5, float32_max,
                 1.4835298, 1.4835298, 3.1415927, float32_max, float32_max, float32_max]\<rparr>,
      observation_space =
        \<lparr>low = [- 5, - float32_max, - 5, - float32_max, 0, - float32_max,
                 - 1.4835298, - 1.4835298, - 3.1415927, - float32_max, - float32_max, - float32_max],
         high = [5, float32_max, 5, float32_max, 2.5, float32_max,
                 1.4835298, 1.4835298, 3.1415927, float32_max, float32_max, float32_max]\<rparr>,
      PYB_FREQ = 500,
      CTRL_FREQ = 30,
      stabilization_goal_tolerance = 0.05,
      GATES = [\<lparr>gate_xyz = (0, - 3, 0), gate_rpy = (0, 0, 0), gate_type = 1\<rparr>,
               \<lparr>gate_xyz = (2, - 2, 0), gate_rpy = (0, 0, 0), gate_type = 0\<rparr>],
      OBSTACLES = [((1.5, - 2.5, 0), (0, 0, 0))],
      PLANE_ID = 0,
      RANDOMIZED_GATES_AND_OBS = False,
      RANDOMIZED_INERTIAL_PROP = False,
      RANDOMIZED_INIT = False,
      INIT_ATTR = (\<lambda>name. if name = ''init_y'' then - 4 else if name = ''init_z'' then 1 else 0),
      GATES_IDS = [],
      OBSTACLES_IDS = [],
      gates_pose = [],
      obstacle_poses = [],
      state = [],
      current_preprocessed_action = [],
      pyb_step_counter = 0,
      ctrl_step_counter = 0,
      cnstr_violation = False,
      current_gate = 0,
      stepped_through_gate = False,
      currently_collided = False,
      at_goal_pos = False,
      steps_at_goal_pos = 0,
      task_completed = False\<rparr>"

definition tracking_env :: quadrotor where
  "tracking_env =
     racing_env
       \<lparr>QUAD_TYPE := ONE_D,
        TASK := TRAJ_TRACKING [[0, 0], [0.5, 0], [1, 0]],
        COST := RL_REWARD,
        U_GOAL := [0.2646],
        Q := [[1, 0], [0, 1]],
        R := [[1]],
        rew_exponential := False,
        state_space := \<lparr>low = [0, - float32_max], high = [2.5, float32_max]\<rparr>,
        observation_space := \<lparr>low = [0, - float32_max], high = [2.5, float32_max]\<rparr>,
        GATES := [],
        state := [2, 0],
        current_preprocessed_action := [0.2646],
        ctrl_step_counter := 3\<rparr>"

definition no_randomization :: np_random where
  "no_randomization =
     \<lparr>distrib = (\<lambda>k. 0), randomize_inertial = (\<lambda>values. values), randomize_init = (\<lambda>values. values)\<rparr>"

text \<open>An engine in which no ray is hit, and one in which the first ray is hit half-way.\<close>

definition free_flight :: pybullet where
  "free_flight =
     \<lparr>loadURDF = (\<lambda>k. int k + 1),
      getContactPoints = (\<lambda>body. False),
      rayTestBatch = (\<lambda>fr to. map (\<lambda>ray. 1) fr),
      drone_state = [0, 0, - 4, 0, 1, 0, 0, 0, 0, 0, 0, 0]\<rparr>"

definition in_gate :: pybullet where
  "in_gate =
     \<lparr>loadURDF = (\<lambda>k. int k + 1),
      getContactPoints = (\<lambda>body. False),
      rayTestBatch = (\<lambda>fr to. 0.5 # map (\<lambda>ray. 1) (tl fr)),
      drone_state = [2, 0, - 2, 0, 1, 0, 0, 0, 0, 0, 0, 0]\<rparr>"

definition tick :: "int \<Rightarrow> base_step" where
  "tick k =
     \<lparr>new_action = [0.06615, 0.06615, 0.06615, 0.06615],
      new_pyb_step_counter = 300 + 16 * k,
      new_ctrl_step_counter = 18 + k,
      new_cnstr_violation = False\<rparr>"

definition racing_ticks :: "(base_step \<times> pybullet) list" where
  "racing_ticks = [(tick 0, in_gate), (tick 1, free_flight), (tick 2, in_gate), (tick 3, free_flight)]"

text \<open>
  The racing environment after the reset on \<open>free_flight\<close> and after each of the four
  steps of \<open>racing_ticks\<close>.
\<close>

definition racing_start :: quadrotor where
  "racing_start =
     racing_env
       \<lparr>GATES_IDS := [2, 3],
        OBSTACLES_IDS := [1],
        gates_pose := [((0, - 3, 0.525), (0, 0, 0)), ((2, - 2, 1), (0, 0, 0))],
        obstacle_poses := [((1.5, - 2.5, 1.05), (0, 0, 0))],
        state := [0, 0, - 4, 0, 1, 0, 0, 0, 0, 0, 0, 0]\<rparr>"

definition racing_state_1 :: quadrotor where
  "racing_state_1 =
     racing_start
       \<lparr>current_preprocessed_action := [0.06615, 0.06615, 0.06615, 0.06615],
        pyb_step_counter := 300,
        ctrl_step_counter := 18,
        state := [2, 0, - 2, 0, 1, 0, 0, 0, 0, 0, 0, 0],
        current_gate := 1,
        stepped_through_gate := True\<rparr>"

definition racing_state_2 :: quadrotor where
  "racing_state_2 =
     racing_state_1
       \<lparr>pyb_step_counter := 316,
        ctrl_step_counter := 19,
        state := [0, 0, - 4, 0, 1, 0, 0, 0, 0, 0, 0, 0],
        stepped_through_gate := False\<rparr>"

definition racing_state_3 :: quadrotor where
  "racing_state_3 =
     racing_state_2
       \<lparr>pyb_step_counter := 332,
        ctrl_step_counter := 20,
        state := [2, 0, - 2, 0, 1, 0, 0, 0, 0, 0, 0, 0],
        current_gate := 2,
        stepped_through_gate := True\<rparr>"

definition racing_state_4 :: quadrotor where
  "racing_state_4 =
     racing_state_3
       \<lparr>pyb_step_counter := 348,
        ctrl_step_counter := 21,
        state := [0, 0, - 4, 0, 1, 0, 0, 0, 0, 0, 0, 0]\<rparr>"
section \<open>Properties\<close>

subsection \<open>Sequencing and array helpers\<close>

lemma bind_simps [simp]: "bind (Inr x) f = f x" "bind (Inl e) f = Inl e"
  by (simp_all add: bind_def)

lemma bind_eq_Inr: "(bind m f = Inr y) = (\<exists>x. m = Inr x \<and> f x = Inr y)"
  by (cases m) simp_all

lemma np_broadcast_same: "length xs = length ys \<Longrightarrow> np_broadcast f xs ys = Inr (map2 f xs ys)"
  by (simp add: np_broadcast_def)

lemma np_any_nth: "np_any xs = (\<exists>i<length xs. xs ! i \<noteq> 0)"
  by (simp add: np_any_def list_ex_length)

subsection \<open>The quadratic cost\<close>

lemma dot_sum_nth: "length xs = length ys \<Longrightarrow> dot xs ys = (\<Sum>i<length xs. xs ! i * ys ! i)"
  unfolding dot_def
  by (simp add: sum_list_sum_nth atLeast0LessThan)

lemma vec_mat_nth:
  assumes "is_matrix n n M" "j < n"
  shows "vec_mat v M ! j = dot v (column M j)"
  using assms by (auto simp del: upt_Suc simp: vec_mat_def is_matrix_def split: list.splits)

lemma vec_mat_length:
  assumes "is_matrix n n M"
  shows "length (vec_mat v M) = n"
  using assms by (auto simp del: upt_Suc simp: vec_mat_def is_matrix_def split: list.splits)

lemma quadratic_form_refines:
  assumes M: "is_matrix (length e) (length e) M"
  shows "dot (vec_mat (vec_scale 0.5 e) M) e = 0.5 * quadratic_form_spec e M"
proof -
  let ?n = "length e"
  have len: "length (vec_mat (vec_scale 0.5 e) M) = ?n"
    by (rule vec_mat_length [OF M])
  have col: "dot (vec_scale 0.5 e) (column M j) = (\<Sum>i<?n. 0.5 * e ! i * (M ! i ! j))"
    if "j < ?n" for j
  proof -
    have "length (vec_scale 0.5 e) = length (column M j)"
      using M by (simp add: vec_scale_def column_def is_matrix_def)
    then have "dot (vec_scale 0.5 e) (column M j)
        = (\<Sum>i<?n. vec_scale 0.5 e ! i * column M j ! i)"
      by (simp add: dot_sum_nth vec_scale_def)
    also have "\<dots> = (\<Sum>i<?n. 0.5 * e ! i * (M ! i ! j))"
      using M by (intro sum.cong) (auto simp: vec_scale_def column_def is_matrix_def)
    finally show ?thesis .
  qed
  have "dot (vec_mat (vec_scale 0.5 e) M) e = (\<Sum>j<?n. vec_mat (vec_scale 0.5 e) M ! j * e ! j)"
    using len by (simp add: dot_sum_nth)
  also have "\<dots> = (\<Sum>j<?n. (\<Sum>i<?n. 0.5 * e ! i * (M ! i ! j)) * e ! j)"
    using vec_mat_nth [OF M] col by (intro sum.cong) auto
  also have "\<dots> = (\<Sum>j<?n. \<Sum>i<?n. 0.5 * (e ! i * (M ! i ! j) * e ! j))"
    by (simp only: sum_distrib_right mult.assoc)
  also have "\<dots> = (\<Sum>i<?n. \<Sum>j<?n. 0.5 * (e ! i * (M ! i ! j) * e ! j))"
    by (rule sum.swap)
  also have "\<dots> = 0.5 * quadratic_form_spec e M"
    by (simp add: quadratic_form_spec_def sum_distrib_left)
  finally show ?thesis .
qed

lemma quadratic_form_zero: "quadratic_form_spec (vec_sub x x) M = 0"
  by (simp add: quadratic_form_spec_def vec_sub_def)

text \<open>
  Claim C7. For every fidelity level, the cost function \<^verbatim>\<open>cost_func\<close> built by
  \<^verbatim>\<open>_setup_symbolic\<close> and evaluated by \<^verbatim>\<open>loss\<close> on arguments of the declared shapes equals
  \<open>0.5 * (X - Xr)\<^sup>T Q (X - Xr) + 0.5 * (U - Ur)\<^sup>T R (U - Ur)\<close>; consequently the loss at zero
  error (\<open>Xr = x\<close>, \<open>Ur = u\<close>) is exactly \<open>0\<close>, for every \<open>x\<close>, \<open>u\<close>, \<open>Q\<close> and \<open>R\<close>.
\<close>

theorem loss_quadratic:
  assumes "length x = nx qt" "length xr = nx qt" "length u = nu qt" "length ur = nu qt"
      and "is_matrix (nx qt) (nx qt) Qm" "is_matrix (nu qt) (nu qt) Rm"
  shows "loss qt x u xr ur Qm Rm = Inr (loss_spec x u xr ur Qm Rm)
       \<and> loss qt x u x u Qm Rm = Inr 0"
proof -
  have ex: "length (vec_sub x xr) = nx qt" "length (vec_sub x x) = nx qt"
    and eu: "length (vec_sub u ur) = nu qt" "length (vec_sub u u) = nu qt"
    using assms by (simp_all add: vec_sub_def)
  have "cost_func x u xr ur Qm Rm = loss_spec x u xr ur Qm Rm"
    unfolding cost_func_def loss_spec_def
    using quadratic_form_refines [of "vec_sub x xr" Qm] quadratic_form_refines [of "vec_sub u ur" Rm]
      assms(5,6) ex eu by simp
  moreover have "cost_func x u x u Qm Rm = 0"
    unfolding cost_func_def
    using quadratic_form_refines [of "vec_sub x x" Qm] quadratic_form_refines [of "vec_sub u u" Rm]
      assms(5,6) ex eu by (simp add: quadratic_form_zero)
  ultimately show ?thesis
    using assms by (simp add: loss_def)
qed

theorem loss_quadratic_witness:
  "loss ONE_D [1, 2] [3] [0, 4] [1] [[2, 1], [0, 3]] [[5]] = Inr 16
   \<and> loss ONE_D [1, 2] [3] [1, 2] [3] [[2, 1], [0, 3]] [[5]] = Inr 0"
  using loss_quadratic [of "[1, 2]" ONE_D "[0, 4]" "[3]" "[1]" "[[2, 1], [0, 3]]" "[[5]]"]
  by (simp add: nx_def nu_def is_matrix_def loss_spec_def quadratic_form_spec_def vec_sub_def
       lessThan_Suc numeral_2_eq_2)

subsection \<open>Rounding\<close>

text \<open>
  The rounding moves a number by at most the relative error \<open>1 / 2 ^ 53\<close>, leaves a
  number with a 53-bit significand as it is, and commutes with halving and doubling.
\<close>

lemma round_even_error: "\<bar>real_of_int (round_even r) - r\<bar> \<le> 1 / 2"
  unfolding round_even_def Let_def by (auto simp: abs_le_iff; linarith)

lemma round_even_of_int [simp]: "round_even (real_of_int n) = n"
  by (simp add: round_even_def)

lemma round_even_ge: "real_of_int n \<le> r \<Longrightarrow> n \<le> round_even r"
  unfolding round_even_def Let_def by (auto simp: le_floor_iff; linarith)

lemma round_even_le: "r \<le> real_of_int n \<Longrightarrow> round_even r \<le> n"
  unfolding round_even_def Let_def by (auto simp: floor_le_iff)

lemma binary64_zero [simp]: "binary64 0 = 0"
  by (simp add: binary64_def)

lemma scaled_range:
  assumes "x \<noteq> 0"
  defines "e \<equiv> \<lfloor>log 2 \<bar>x\<bar>\<rfloor>"
  shows "2 ^ 52 \<le> \<bar>x\<bar> / 2 powr real_of_int (e - 52)"
    and "\<bar>x\<bar> / 2 powr real_of_int (e - 52) < 2 ^ 53"
proof -
  have pos: "0 < \<bar>x\<bar>" using assms by simp
  have x: "\<bar>x\<bar> = 2 powr (log 2 \<bar>x\<bar>)" using pos by simp
  have lo: "real_of_int e \<le> log 2 \<bar>x\<bar>" and hi: "log 2 \<bar>x\<bar> < real_of_int e + 1"
    unfolding e_def by linarith+
  have q: "\<bar>x\<bar> / 2 powr real_of_int (e - 52) = 2 powr (log 2 \<bar>x\<bar> - real_of_int e + 52)"
    by (subst x) (simp add: powr_diff [symmetric] algebra_simps)
  have "2 powr (52::real) \<le> 2 powr (log 2 \<bar>x\<bar> - real_of_int e + 52)"
    using lo by (intro powr_mono) auto
  then show "2 ^ 52 \<le> \<bar>x\<bar> / 2 powr real_of_int (e - 52)"
    unfolding q by simp
  have "2 powr (log 2 \<bar>x\<bar> - real_of_int e + 52) < 2 powr (53::real)"
    using hi by (intro powr_less_mono) auto
  then show "\<bar>x\<bar> / 2 powr real_of_int (e - 52) < 2 ^ 53"
    unfolding q by simp
qed

lemma binary64_error: "\<bar>binary64 x - x\<bar> \<le> \<bar>x\<bar> / 2 ^ 53"
proof (cases "x = 0")
  case True
  then show ?thesis by simp
next
  case False
  define e where "e = \<lfloor>log 2 \<bar>x\<bar>\<rfloor>"
  define s where "s = 2 powr real_of_int (e - 52)"
  have s: "0 < s" by (simp add: s_def)
  have f: "binary64 x = real_of_int (round_even (x / s)) * s"
    using False by (simp add: binary64_def e_def s_def Let_def)
  have "binary64 x - x = (real_of_int (round_even (x / s)) - x / s) * s"
    using s unfolding f by (simp add: algebra_simps)
  then have "\<bar>binary64 x - x\<bar> = \<bar>real_of_int (round_even (x / s)) - x / s\<bar> * s"
    using s by (simp add: abs_mult)
  also have "\<dots> \<le> 1 / 2 * s"
    using round_even_error [of "x / s"] s by (intro mult_right_mono) auto
  also have "\<dots> \<le> \<bar>x\<bar> / 2 ^ 53"
  proof -
    have "2 ^ 52 \<le> \<bar>x\<bar> / s"
      using scaled_range(1) [OF False] unfolding s_def e_def .
    then have "2 ^ 52 * s \<le> \<bar>x\<bar>"
      using s by (simp add: pos_le_divide_eq)
    then show ?thesis by simp
  qed
  finally show ?thesis .
qed


lemma floor_log2_scaled:
  assumes "2 ^ 52 \<le> \<bar>n\<bar>" and "\<bar>n\<bar> < (2 ^ 53 :: int)"
  shows "\<lfloor>log 2 \<bar>real_of_int n * 2 powr real_of_int k\<bar>\<rfloor> = 52 + k"
proof -
  have n: "0 < \<bar>real_of_int n\<bar>" using assms by simp
  have lo: "(2::real) ^ 52 \<le> \<bar>real_of_int n\<bar>"
    using assms(1) by (metis of_int_abs of_int_le_iff of_int_numeral of_int_power)
  have hi: "\<bar>real_of_int n\<bar> < (2::real) ^ 53"
    using assms(2) by (metis of_int_abs of_int_less_iff of_int_numeral of_int_power)
  have l: "52 \<le> log 2 \<bar>real_of_int n\<bar>"
    using lo n by (simp add: le_log_iff)
  have h: "log 2 \<bar>real_of_int n\<bar> < 53"
    using hi n by (simp add: log_less_iff)
  have "log 2 \<bar>real_of_int n * 2 powr real_of_int k\<bar>
          = log 2 \<bar>real_of_int n\<bar> + real_of_int k"
    using n by (simp add: abs_mult log_mult)
  moreover have "\<lfloor>log 2 \<bar>real_of_int n\<bar> + real_of_int k\<rfloor> = 52 + k"
    using l h by linarith
  ultimately show ?thesis by simp
qed

lemma binary64_representable:
  assumes "2 ^ 52 \<le> \<bar>n\<bar>" and "\<bar>n\<bar> < (2 ^ 53 :: int)"
  shows "binary64 (real_of_int n * 2 powr real_of_int k) = real_of_int n * 2 powr real_of_int k"
proof -
  have nz: "real_of_int n * 2 powr real_of_int k \<noteq> 0"
    using assms by auto
  show ?thesis
    using nz by (simp add: binary64_def floor_log2_scaled [OF assms] Let_def)
qed

lemma binary64_is_representable:
  assumes "x \<noteq> 0"
  shows "\<exists>n k. binary64 x = real_of_int n * 2 powr real_of_int k \<and> 2 ^ 52 \<le> \<bar>n\<bar> \<and> \<bar>n\<bar> < (2 ^ 53 :: int)"
proof -
  define e where "e = \<lfloor>log 2 \<bar>x\<bar>\<rfloor>"
  define s where "s = 2 powr real_of_int (e - 52)"
  define n where "n = round_even (x / s)"
  have s: "0 < s" by (simp add: s_def)
  have f: "binary64 x = real_of_int n * s"
    using assms by (simp add: binary64_def e_def s_def n_def Let_def)
  have lo: "2 ^ 52 \<le> \<bar>x\<bar> / s" and hi: "\<bar>x\<bar> / s < 2 ^ 53"
    using scaled_range [OF assms] unfolding s_def e_def by simp_all
  have a: "\<bar>x / s\<bar> = \<bar>x\<bar> / s" using s by simp
  have lo': "2 ^ 52 \<le> \<bar>x / s\<bar>" and hi': "\<bar>x / s\<bar> < 2 ^ 53"
    using lo hi unfolding a by simp_all
  have nlo: "2 ^ 52 \<le> \<bar>n\<bar>" and nhi: "\<bar>n\<bar> \<le> 2 ^ 53"
  proof -
    show "2 ^ 52 \<le> \<bar>n\<bar>"
    proof (cases "0 \<le> x / s")
      case True
      then have "2 ^ 52 \<le> x / s" using lo' by linarith
      then have "real_of_int (2 ^ 52) \<le> x / s" by simp
      from round_even_ge [OF this] show ?thesis unfolding n_def by simp
    next
      case False
      then have "x / s \<le> - (2 ^ 52)" using lo' by linarith
      then have "x / s \<le> real_of_int (- (2 ^ 52))" by simp
      from round_even_le [OF this] show ?thesis unfolding n_def by simp
    qed
    show "\<bar>n\<bar> \<le> 2 ^ 53"
    proof (cases "0 \<le> x / s")
      case True
      then have "x / s \<le> 2 ^ 53" using hi' by linarith
      then have "x / s \<le> real_of_int (2 ^ 53)" "real_of_int 0 \<le> x / s"
        using True by simp_all
      from round_even_le [OF this(1)] round_even_ge [OF this(2)] show ?thesis
        unfolding n_def by simp
    next
      case False
      then have "- (2 ^ 53) \<le> x / s" using hi' by linarith
      then have "real_of_int (- (2 ^ 53)) \<le> x / s" "x / s \<le> real_of_int 0"
        using False by simp_all
      from round_even_ge [OF this(1)] round_even_le [OF this(2)] show ?thesis
        unfolding n_def by simp
    qed
  qed
  show ?thesis
  proof (cases "\<bar>n\<bar> < 2 ^ 53")
    case True
    then show ?thesis using f nlo unfolding s_def by blast
  next
    case False
    then have eq: "\<bar>n\<bar> = 2 ^ 53" using nhi by simp
    define m where "m = n div 2"
    have "n = 2 ^ 53 \<or> n = - (2 ^ 53)"
      using eq by linarith
    then have n2: "n = 2 * m" and m: "\<bar>m\<bar> = 2 ^ 52"
      unfolding m_def by auto
    have "2 powr (real_of_int (e - 52) + 1) = 2 powr real_of_int (e - 52) * 2 powr 1"
      by (rule powr_add)
    moreover have "real_of_int (e - 52) + 1 = real_of_int (e - 51)"
      by simp
    ultimately have "s * 2 = 2 powr real_of_int (e - 51)"
      unfolding s_def by simp
    then have "binary64 x = real_of_int m * 2 powr real_of_int (e - 51)"
      unfolding f n2 by (simp add: algebra_simps)
    then show ?thesis using m by (intro exI [of _ m] exI [of _ "e - 51"]) simp
  qed
qed

lemma binary64_idem [simp]: "binary64 (binary64 x) = binary64 x"
proof (cases "x = 0")
  case True
  then show ?thesis by simp
next
  case False
  from binary64_is_representable [OF this] obtain n k where
    "binary64 x = real_of_int n * 2 powr real_of_int k" "2 ^ 52 \<le> \<bar>n\<bar>" "\<bar>n\<bar> < 2 ^ 53"
    by blast
  then show ?thesis by (simp add: binary64_representable)
qed

lemma binary64_twice [simp]: "binary64 (2 * binary64 x) = 2 * binary64 x"
proof (cases "x = 0")
  case True
  then show ?thesis by simp
next
  case False
  from binary64_is_representable [OF this] obtain n k where
    r: "binary64 x = real_of_int n * 2 powr real_of_int k" "2 ^ 52 \<le> \<bar>n\<bar>" "\<bar>n\<bar> < 2 ^ 53"
    by blast
  have "2 powr (real_of_int k + 1) = 2 powr real_of_int k * 2 powr 1"
    by (rule powr_add)
  then have "2 * binary64 x = real_of_int n * 2 powr real_of_int (k + 1)"
    unfolding r(1) by simp
  then show ?thesis using binary64_representable [OF r(2,3), of "k + 1"] by simp
qed

lemma binary64_dyadic:
  assumes "2 ^ 52 \<le> \<bar>n\<bar>" and "\<bar>n\<bar> < (2 ^ 53 :: int)"
  shows "binary64 (real_of_int n / 2 ^ j) = real_of_int n / 2 ^ j"
proof -
  have "real_of_int n / 2 ^ j = real_of_int n * 2 powr real_of_int (- int j)"
    by (simp add: powr_minus powr_realpow divide_inverse)
  then show ?thesis using binary64_representable [OF assms, of "- int j"] by simp
qed

lemma binary64_one [simp]: "binary64 1 = 1"
  using binary64_dyadic [of "2 ^ 52" 52] by simp

lemma binary64_eval:
  assumes "2 ^ 52 \<le> \<bar>x\<bar> * 2 ^ j" and "\<bar>x\<bar> * 2 ^ j < 2 ^ 53"
  shows "binary64 x = real_of_int (round_even (x * 2 ^ j)) / 2 ^ j"
proof -
  have nz: "x \<noteq> 0" using assms(1) by auto
  have p: "(2::real) ^ j = 2 powr real j" by (simp add: powr_realpow)
  have pos: "0 < \<bar>x\<bar> * 2 ^ j" using nz by simp
  have sum: "log 2 (\<bar>x\<bar> * 2 ^ j) = log 2 \<bar>x\<bar> + real j"
    using nz by (simp add: log_mult p)
  have "52 \<le> log 2 (\<bar>x\<bar> * 2 ^ j)"
    using assms(1) pos by (simp add: le_log_iff)
  moreover have "log 2 (\<bar>x\<bar> * 2 ^ j) < 53"
    using assms(2) pos by (simp add: log_less_iff)
  ultimately have "52 \<le> log 2 \<bar>x\<bar> + real j" "log 2 \<bar>x\<bar> + real j < 53"
    unfolding sum by simp_all
  then have e: "\<lfloor>log 2 \<bar>x\<bar>\<rfloor> = 52 - int j" by linarith
  have u: "2 powr (- real j) = 1 / 2 ^ j"
    by (simp add: powr_minus powr_realpow divide_inverse)
  show ?thesis
    using nz by (simp add: binary64_def e u Let_def)
qed


lemma binary64_half [simp]: "binary64 (binary64 x / 2) = binary64 x / 2"
proof (cases "x = 0")
  case True
  then show ?thesis by simp
next
  case False
  from binary64_is_representable [OF this] obtain n k where
    r: "binary64 x = real_of_int n * 2 powr real_of_int k" "2 ^ 52 \<le> \<bar>n\<bar>" "\<bar>n\<bar> < 2 ^ 53"
    by blast
  have "2 powr (real_of_int k - 1) = 2 powr real_of_int k / 2 powr 1"
    by (rule powr_diff)
  then have "binary64 x / 2 = real_of_int n * 2 powr real_of_int (k - 1)"
    unfolding r(1) by simp
  then show ?thesis using binary64_representable [OF r(2,3), of "k - 1"] by simp
qed

lemma binary64_quarter [simp]: "binary64 (binary64 x / 4) = binary64 x / 4"
proof -
  have "binary64 (binary64 (binary64 x / 2) / 2) = binary64 (binary64 x / 2) / 2"
    by (rule binary64_half)
  then show ?thesis by simp
qed

lemma binary64_error_numeral: "\<bar>binary64 x - x\<bar> \<le> \<bar>x\<bar> / 9007199254740992"
  using binary64_error [of x] by simp

lemma residual_arith:
  fixes q g k b r :: real
  assumes "\<bar>q - g\<bar> \<le> k" and "k \<le> 5 * \<bar>g\<bar> / 9007199254740992"
    and "\<bar>b - q\<bar> \<le> \<bar>q\<bar> / 9007199254740992"
    and "\<bar>r - (b - g)\<bar> \<le> \<bar>b - g\<bar> / 9007199254740992"
  shows "\<bar>r\<bar> \<le> \<bar>g\<bar> / 1125899906842624"
proof -
  define G Q B R where "G = \<bar>g\<bar>" and "Q = \<bar>q\<bar>" and "B = \<bar>b - g\<bar>" and "R = \<bar>r\<bar>"
  have 0: "0 \<le> G"
    by (simp add: G_def)
  have 1: "Q \<le> G + k"
    unfolding Q_def G_def using assms(1) by linarith
  have 2: "B \<le> Q / 9007199254740992 + k"
    unfolding Q_def B_def using assms(1,3) by linarith
  have 3: "R \<le> B + B / 9007199254740992"
    unfolding R_def B_def using assms(4) by linarith
  have 4: "k \<le> 5 * G / 9007199254740992"
    unfolding G_def by (rule assms(2))
  from 0 1 2 3 4 have "R \<le> G / 1125899906842624"
    by linarith
  then show ?thesis
    by (simp add: R_def G_def)
qed

lemma residual_bound:
  assumes "m \<noteq> 0" and "\<bar>F - m * g\<bar> \<le> c * \<bar>m * g\<bar>" and "c \<le> 5 / 9007199254740992"
  shows "\<bar>binary64 (binary64 (F / m) - g)\<bar> \<le> \<bar>g\<bar> / 2 ^ 50"
proof -
  have "F / m - g = (F - m * g) / m"
    using assms(1) by (simp add: field_simps)
  then have "\<bar>F / m - g\<bar> = \<bar>F - m * g\<bar> / \<bar>m\<bar>"
    by simp
  also have "\<dots> \<le> c * \<bar>m * g\<bar> / \<bar>m\<bar>"
    using assms(2) by (simp add: divide_right_mono)
  also have "\<dots> = c * \<bar>g\<bar>"
    using assms(1) by (simp add: abs_mult)
  finally have q: "\<bar>F / m - g\<bar> \<le> c * \<bar>g\<bar>" .
  have "c * \<bar>g\<bar> \<le> 5 / 9007199254740992 * \<bar>g\<bar>"
    using assms(3) by (rule mult_right_mono) simp
  then have cg: "c * \<bar>g\<bar> \<le> 5 * \<bar>g\<bar> / 9007199254740992"
    by simp
  have "\<bar>binary64 (binary64 (F / m) - g)\<bar> \<le> \<bar>g\<bar> / 1125899906842624"
    by (rule residual_arith [OF q cg binary64_error_numeral binary64_error_numeral])
  then show ?thesis by simp
qed

subsection \<open>Hover equilibrium\<close>

lemmas ops64 = add64_def sub64_def mul64_def div64_def sin64_def cos64_def tan64_def sqrt64_def

lemma X_EQ_simps:
  "X_EQ ONE_D = [0, 0]"
  "X_EQ TWO_D = [0, 0, 0, 0, 0, 0]"
  "X_EQ THREE_D = [0, 0, 0, 0, 0, 0, 0, 0, 0, 0, 0, 0]"
  by (simp_all add: X_EQ_def nx_def eval_nat_numeral)

lemma U_EQ_1d:
  assumes "binary64 (MASS d) = MASS d"
  shows "U_EQ ONE_D d = [binary64 (MASS d * GRAVITY_ACC d)]"
  using assms by (simp add: U_EQ_def U_GOAL_of_def nu_def ops64)

lemma U_EQ_2d:
  assumes "binary64 (MASS d) = MASS d"
  shows "U_EQ TWO_D d
           = [binary64 (MASS d * GRAVITY_ACC d) / 2, binary64 (MASS d * GRAVITY_ACC d) / 2]"
  using assms by (simp add: U_EQ_def U_GOAL_of_def nu_def ops64 numeral_2_eq_2)

lemma U_EQ_3d:
  assumes "binary64 (MASS d) = MASS d"
  shows "U_EQ THREE_D d =
     [binary64 (MASS d * GRAVITY_ACC d) / 4, binary64 (MASS d * GRAVITY_ACC d) / 4,
      binary64 (MASS d * GRAVITY_ACC d) / 4, binary64 (MASS d * GRAVITY_ACC d) / 4]"
  using assms by (simp add: U_EQ_def U_GOAL_of_def nu_def ops64 eval_nat_numeral)

lemma thrust_1d: "\<bar>binary64 (m * g) - m * g\<bar> \<le> 1 / 9007199254740992 * \<bar>m * g\<bar>"
  using binary64_error_numeral [of "m * g"] by simp

lemma hover_1d:
  assumes "binary64 (MASS d) = MASS d"
  shows "dyn_eqn_1d d (X_EQ ONE_D) (U_EQ ONE_D d)
           = [0,
              binary64 (binary64 (binary64 (MASS d * GRAVITY_ACC d) / MASS d) - GRAVITY_ACC d)]"
  by (simp add: dyn_eqn_1d_def X_EQ_simps U_EQ_1d [OF assms] ops64)

lemma hover_2d:
  assumes "binary64 (MASS d) = MASS d"
  shows "dyn_eqn_2d d (X_EQ TWO_D) (U_EQ TWO_D d)
           = [0, 0, 0,
              binary64 (binary64 (binary64 (MASS d * GRAVITY_ACC d) / MASS d) - GRAVITY_ACC d),
              0, 0]"
  by (simp add: dyn_eqn_2d_def X_EQ_simps U_EQ_2d [OF assms] ops64 Let_def)

lemma csRotXYZ_zero: "csRotXYZ 0 0 0 = [[1, 0, 0], [0, 1, 0], [0, 0, 1]]"
  by (simp add: csRotXYZ_def mat_mul64_def column_def dot64_def ops64)

lemma thrust_3d:
  fixes a mg s3 s4 :: real
  assumes "\<bar>a - mg\<bar> \<le> \<bar>mg\<bar> / 9007199254740992"
    and "\<bar>s3 - 3 * a / 4\<bar> \<le> \<bar>3 * a / 4\<bar> / 9007199254740992"
    and "\<bar>s4 - (s3 + a / 4)\<bar> \<le> \<bar>s3 + a / 4\<bar> / 9007199254740992"
  shows "\<bar>s4 - mg\<bar> \<le> 5 / 9007199254740992 * \<bar>mg\<bar>"
proof -
  define G A D3 S D4 where "G = \<bar>mg\<bar>" and "A = \<bar>a\<bar>" and "D3 = \<bar>s3 - 3 * a / 4\<bar>"
    and "S = \<bar>s3 + a / 4\<bar>" and "D4 = \<bar>s4 - (s3 + a / 4)\<bar>"
  have 0: "0 \<le> G"
    by (simp add: G_def)
  have 1: "A \<le> G + G / 9007199254740992"
    unfolding A_def G_def using assms(1) by linarith
  have 2: "D3 \<le> 3 * A / 4 / 9007199254740992"
    unfolding D3_def A_def using assms(2) by linarith
  have 3: "S \<le> A + D3"
    unfolding S_def A_def D3_def by linarith
  have 4: "D4 \<le> S / 9007199254740992"
    unfolding D4_def S_def by (rule assms(3))
  have 5: "\<bar>s4 - mg\<bar> \<le> D4 + D3 + G / 9007199254740992"
    unfolding D4_def D3_def G_def using assms(1) by linarith
  from 0 1 2 3 4 5 have "\<bar>s4 - mg\<bar> \<le> 5 / 9007199254740992 * G"
    by linarith
  then show ?thesis
    by (simp add: G_def)
qed

lemma hover_3d:
  assumes "binary64 (MASS d) = MASS d" and "RotXYZ 0 0 0 = [[1, 0, 0], [0, 1, 0], [0, 0, 1]]"
  shows "dyn_eqn_3d d RotXYZ (X_EQ THREE_D) (U_EQ THREE_D d)
           = [0, 0, 0, 0, 0,
              binary64
                (binary64
                   (binary64 (binary64 (3 * binary64 (MASS d * GRAVITY_ACC d) / 4)
                              + binary64 (MASS d * GRAVITY_ACC d) / 4) / MASS d)
                 - GRAVITY_ACC d),
              0, 0, 0, 0, 0, 0]"
  using assms(2)
  by (simp add: dyn_eqn_3d_def X_EQ_simps U_EQ_3d [OF assms(1)] ops64 Let_def mat_vec64_def
      dot64_def vec_sub64_def vec_div64_def mat_mul64_def column_def skew_def)

text \<open>
  Claim C6, in binary64 arithmetic. For each of the three fidelity levels, the state
  derivative at the hover equilibrium (the zero state \<^verbatim>\<open>X_EQ\<close>, and the input
  \<^verbatim>\<open>U_EQ\<close> that splits \<^verbatim>\<open>MASS * GRAVITY_ACC\<close> evenly over the actuators) is zero in
  every component but one: the position rates, the horizontal accelerations, the
  Euler-angle rates and the angular accelerations are exactly zero, and the vertical
  acceleration, thrust over mass minus \<open>g\<close>, is a rounding residual \<open>r\<close> of magnitude at
  most \<open>\<bar>g\<bar> / 2 ^ 50\<close>. The parameters of the drone are binary64 numbers, not zero; the
  rotation of the three-dimensional model is the identity at zero angles.
\<close>

theorem hover_equilibrium:
  assumes "binary64_drone d" and "RotXYZ 0 0 0 = [[1, 0, 0], [0, 1, 0], [0, 0, 1]]"
  shows "\<exists>r. dyn_eqn qt d RotXYZ (X_EQ qt) (U_EQ qt d)
               = Inr ((replicate (nx qt) 0)[gravity_index qt := r])
           \<and> \<bar>r\<bar> \<le> \<bar>GRAVITY_ACC d\<bar> / 2 ^ 50"
proof -
  let ?mg = "MASS d * GRAVITY_ACC d"
  let ?a = "binary64 ?mg"
  let ?F = "binary64 (binary64 (3 * ?a / 4) + ?a / 4)"
  from assms(1) have m: "binary64 (MASS d) = MASS d" "MASS d \<noteq> 0"
    by (auto simp: binary64_drone_def is_binary64_def)
  have "\<bar>?a - ?mg\<bar> \<le> 1 / 9007199254740992 * \<bar>?mg\<bar>"
    using binary64_error_numeral [of ?mg] by simp
  then have r1:
    "\<bar>binary64 (binary64 (?a / MASS d) - GRAVITY_ACC d)\<bar> \<le> \<bar>GRAVITY_ACC d\<bar> / 2 ^ 50"
    by (rule residual_bound [OF m(2)]) simp
  have "\<bar>?F - ?mg\<bar> \<le> 5 / 9007199254740992 * \<bar>?mg\<bar>"
    by (rule thrust_3d [OF binary64_error_numeral binary64_error_numeral binary64_error_numeral])
  then have r3:
    "\<bar>binary64 (binary64 (?F / MASS d) - GRAVITY_ACC d)\<bar> \<le> \<bar>GRAVITY_ACC d\<bar> / 2 ^ 50"
    by (rule residual_bound [OF m(2)]) simp
  show ?thesis
  proof (cases qt)
    case ONE_D
    then show ?thesis
      using hover_1d [OF m(1)] r1
      by (simp add: dyn_eqn_def X_EQ_def U_EQ_def U_GOAL_of_def nx_def nu_def gravity_index_def
          eval_nat_numeral)
  next
    case TWO_D
    then show ?thesis
      using hover_2d [OF m(1)] r1
      by (simp add: dyn_eqn_def X_EQ_def U_EQ_def U_GOAL_of_def nx_def nu_def gravity_index_def
          eval_nat_numeral)
  next
    case THREE_D
    then show ?thesis
      using hover_3d [of d RotXYZ] m(1) assms(2) r3
      by (simp add: dyn_eqn_def X_EQ_def U_EQ_def U_GOAL_of_def nx_def nu_def gravity_index_def
          eval_nat_numeral)
  qed
qed

lemma crazyflie_binary64_representable:
  "binary64 (7782220156096217 / 2 ^ 58) = 7782220156096217 / 2 ^ 58"
  "binary64 (8646911284551352 / 2 ^ 58) = 8646911284551352 / 2 ^ 58"
  "binary64 (5516909543528858 / 2 ^ 49) = 5516909543528858 / 2 ^ 49"
  "binary64 (5721372966611478 / 2 ^ 57) = 5721372966611478 / 2 ^ 57"
  "binary64 (8264141345021879 / 2 ^ 69) = 8264141345021879 / 2 ^ 69"
  "binary64 (6404709542391956 / 2 ^ 68) = 6404709542391956 / 2 ^ 68"
  "binary64 (4799435503870078 / 2 ^ 79) = 4799435503870078 / 2 ^ 79"
  "binary64 (4775256987477785 / 2 ^ 77) = 4775256987477785 / 2 ^ 77"
  using binary64_dyadic [of 7782220156096217 58] binary64_dyadic [of 8646911284551352 58]
    binary64_dyadic [of 5516909543528858 49] binary64_dyadic [of 5721372966611478 57]
    binary64_dyadic [of 8264141345021879 69] binary64_dyadic [of 6404709542391956 68]
    binary64_dyadic [of 4799435503870078 79] binary64_dyadic [of 4775256987477785 77]
  by simp_all

lemma binary64_drone_crazyflie: "binary64_drone crazyflie_binary64"
  using crazyflie_binary64_representable
  by (simp add: binary64_drone_def is_binary64_def crazyflie_binary64_def)

lemma binary64_drone_heavier: "binary64_drone heavier_binary64"
  using crazyflie_binary64_representable
  by (simp add: binary64_drone_def is_binary64_def crazyflie_binary64_def heavier_binary64_def)

text \<open>The theorem at the Crazyflie parameters, in the three fidelities.\<close>

theorem hover_equilibrium_witness:
  "binary64_drone crazyflie_binary64
   \<and> csRotXYZ 0 0 0 = [[1, 0, 0], [0, 1, 0], [0, 0, 1]]
   \<and> (\<exists>r. dyn_eqn THREE_D crazyflie_binary64 csRotXYZ (X_EQ THREE_D)
              (U_EQ THREE_D crazyflie_binary64)
            = Inr ((replicate 12 0)[5 := r])
          \<and> \<bar>r\<bar> \<le> \<bar>GRAVITY_ACC crazyflie_binary64\<bar> / 2 ^ 50)
   \<and> (\<exists>r. dyn_eqn TWO_D crazyflie_binary64 csRotXYZ (X_EQ TWO_D) (U_EQ TWO_D crazyflie_binary64)
            = Inr ((replicate 6 0)[3 := r])
          \<and> \<bar>r\<bar> \<le> \<bar>GRAVITY_ACC crazyflie_binary64\<bar> / 2 ^ 50)
   \<and> (\<exists>r. dyn_eqn ONE_D crazyflie_binary64 csRotXYZ (X_EQ ONE_D) (U_EQ ONE_D crazyflie_binary64)
            = Inr ((replicate 2 0)[1 := r])
          \<and> \<bar>r\<bar> \<le> \<bar>GRAVITY_ACC crazyflie_binary64\<bar> / 2 ^ 50)"
  using hover_equilibrium [of crazyflie_binary64 csRotXYZ THREE_D]
    hover_equilibrium [of crazyflie_binary64 csRotXYZ TWO_D]
    hover_equilibrium [of crazyflie_binary64 csRotXYZ ONE_D]
  by (simp add: binary64_drone_crazyflie csRotXYZ_zero nx_def gravity_index_def)

lemma heavier_thrust:
  "binary64 (MASS heavier_binary64 * GRAVITY_ACC heavier_binary64) = 5296233161787703 / 2 ^ 54"
  by (subst binary64_eval [where j = 54])
    (simp_all add: heavier_binary64_def crazyflie_binary64_def round_even_def Let_def)

lemma heavier_quotient:
  "binary64 (5296233161787703 / 2 ^ 54 / MASS heavier_binary64) = 5516909543528857 / 2 ^ 49"
  by (subst binary64_eval [where j = 49])
    (simp_all add: heavier_binary64_def crazyflie_binary64_def round_even_def Let_def)

lemma heavier_difference:
  "binary64 (5516909543528857 / 2 ^ 49 - GRAVITY_ACC heavier_binary64) = - 1 / 2 ^ 49"
  using binary64_dyadic [of "- (2 ^ 52)" 101]
  by (simp add: heavier_binary64_def crazyflie_binary64_def)

lemma heavier_three_quarters:
  "binary64 (3 * (5296233161787703 / 2 ^ 54) / 4) = 7944349742681554 / 2 ^ 55"
  by (subst binary64_eval [where j = 55]) (simp_all add: round_even_def Let_def)

lemma heavier_sum:
  "binary64 (7944349742681554 / 2 ^ 55 + 5296233161787703 / 2 ^ 54 / 4)
     = 5296233161787703 / 2 ^ 54"
  by (subst binary64_eval [where j = 54]) (simp_all add: round_even_def Let_def)

lemma heavier_mass: "binary64 (MASS heavier_binary64) = MASS heavier_binary64"
  using binary64_drone_heavier by (simp add: binary64_drone_def is_binary64_def)

text \<open>
  The residual is not always zero. With the mass \<open>0.03\<close> and \<open>g = 9.8\<close> the product
  \<open>m * g\<close> rounds down, the quotient by \<open>m\<close> rounds to the binary64 number just below
  \<open>g\<close>, and the vertical acceleration at hover is \<open>- 1 / 2 ^ 49\<close>, about \<open>-1.78e-15\<close>,
  in all three fidelities.
\<close>

theorem hover_residual_nonzero:
  "binary64_drone heavier_binary64
   \<and> dyn_eqn ONE_D heavier_binary64 csRotXYZ (X_EQ ONE_D) (U_EQ ONE_D heavier_binary64)
     = Inr [0, - 1 / 2 ^ 49]
   \<and> dyn_eqn TWO_D heavier_binary64 csRotXYZ (X_EQ TWO_D) (U_EQ TWO_D heavier_binary64)
     = Inr [0, 0, 0, - 1 / 2 ^ 49, 0, 0]
   \<and> dyn_eqn THREE_D heavier_binary64 csRotXYZ (X_EQ THREE_D) (U_EQ THREE_D heavier_binary64)
     = Inr [0, 0, 0, 0, 0, - 1 / 2 ^ 49, 0, 0, 0, 0, 0, 0]"
proof -
  have 1: "dyn_eqn_1d heavier_binary64 (X_EQ ONE_D) (U_EQ ONE_D heavier_binary64)
             = [0, - 1 / 2 ^ 49]"
    unfolding hover_1d [OF heavier_mass]
    by (simp only: heavier_thrust heavier_quotient heavier_difference)
  have 2: "dyn_eqn_2d heavier_binary64 (X_EQ TWO_D) (U_EQ TWO_D heavier_binary64)
             = [0, 0, 0, - 1 / 2 ^ 49, 0, 0]"
    unfolding hover_2d [OF heavier_mass]
    by (simp only: heavier_thrust heavier_quotient heavier_difference)
  have 3: "dyn_eqn_3d heavier_binary64 csRotXYZ (X_EQ THREE_D) (U_EQ THREE_D heavier_binary64)
             = [0, 0, 0, 0, 0, - 1 / 2 ^ 49, 0, 0, 0, 0, 0, 0]"
    unfolding hover_3d [of heavier_binary64 csRotXYZ, OF heavier_mass csRotXYZ_zero]
    by (simp only: heavier_thrust heavier_three_quarters heavier_sum heavier_quotient
        heavier_difference)
  from 1 2 3 show ?thesis
    by (simp add: binary64_drone_heavier dyn_eqn_def X_EQ_def U_EQ_def U_GOAL_of_def nx_def
        nu_def)
qed

subsection \<open>Termination\<close>

lemma done_mask_length: "length (done_mask qt) = nx qt"
  by (cases qt) (simp_all add: done_mask_def nx_def)

lemma done_mask_bit: "i < nx qt \<Longrightarrow> done_mask qt ! i = 0 \<or> done_mask qt ! i = 1"
  by (cases qt) (auto simp: done_mask_def nx_def nth_Cons')

lemma concat_replicate_nth: "0 < k \<Longrightarrow> i < length xs \<Longrightarrow> concat (replicate k xs) ! i = xs ! i"
  by (cases k) (simp_all add: nth_append)

lemma set_observation_space_frame:
  "state_space (set_observation_space lo hi self) = \<lparr>low = lo, high = hi\<rparr>"
  "QUAD_TYPE (set_observation_space lo hi self) = QUAD_TYPE self"
  "state (set_observation_space lo hi self) = state self"
  "done_on_out_of_bound (set_observation_space lo hi self) = done_on_out_of_bound self"
  "DONE_ON_COLLISION (set_observation_space lo hi self) = DONE_ON_COLLISION self"
  "DONE_ON_COMPLETION (set_observation_space lo hi self) = DONE_ON_COMPLETION self"
  "currently_collided (set_observation_space lo hi self) = currently_collided self"
  "task_completed (set_observation_space lo hi self) = task_completed self"
  by (simp_all add: set_observation_space_def Let_def)

lemma observation_space_prefix:
  assumes "i < length lo" "length hi = length lo"
  shows "low (observation_space (set_observation_space lo hi self)) ! i = lo ! i"
    and "high (observation_space (set_observation_space lo hi self)) ! i = hi ! i"
  using assms
  by (auto simp: set_observation_space_def Let_def concat_replicate_nth split: Task.splits)

lemma out_of_bound_any:
  assumes "length st = nx qt" "length lo = nx qt" "length hi = nx qt"
  shows "np_any (map2 (\<lambda>b m. (if b then 1 else 0) * m)
            (map2 (\<or>) (map2 (<) st lo) (map2 (\<lambda>a b. a > b) st hi)) (done_mask qt))
         = (\<exists>i<nx qt. done_mask qt ! i = 1 \<and> (st ! i < lo ! i \<or> st ! i > hi ! i))"
proof -
  have bit: "(done_mask qt ! i \<noteq> 0) = (done_mask qt ! i = 1)" if "i < nx qt" for i
    using done_mask_bit [OF that] by auto
  show ?thesis
    using assms bit by (auto simp: np_any_nth done_mask_length split: if_splits)
qed

text \<open>
  Claim C1. In an environment whose spaces were set by \<^verbatim>\<open>_set_observation_space\<close> and whose
  state has the dimension of its fidelity, \<^verbatim>\<open>_get_done\<close> returns true if and only if
  (a) \<^verbatim>\<open>done_on_out_of_bound\<close> is on and some state dimension selected by the fixed mask of
  the fidelity (1D \<open>[1,0]\<close>, 2D \<open>[1,0,1,0,1,0]\<close>, 3D \<open>[1,0,1,0,1,0,1,1,1,0,0,0]\<close>) lies
  strictly outside the bounds of the observation space, or (b) the collision flag is set
  and termination on collision is on, or (c) the task-completed flag is set and
  termination on completion is on.
\<close>

theorem get_done_iff:
  assumes "length (state self) = nx (QUAD_TYPE self)"
      and "length lo = nx (QUAD_TYPE self)" and "length hi = nx (QUAD_TYPE self)"
      and "env = set_observation_space lo hi self"
  shows "get_done env =
           Inr ((done_on_out_of_bound env
                 \<and> (\<exists>i<nx (QUAD_TYPE env). done_mask (QUAD_TYPE env) ! i = 1
                      \<and> (state env ! i < low (observation_space env) ! i
                         \<or> state env ! i > high (observation_space env) ! i)))
                \<or> (currently_collided env \<and> DONE_ON_COLLISION env)
                \<or> (task_completed env \<and> DONE_ON_COMPLETION env))
         \<and> done_mask ONE_D = [1, 0]
         \<and> done_mask TWO_D = [1, 0, 1, 0, 1, 0]
         \<and> done_mask THREE_D = [1, 0, 1, 0, 1, 0, 1, 1, 1, 0, 0, 0]"
proof -
  let ?n = "nx (QUAD_TYPE self)"
  have fr: "QUAD_TYPE env = QUAD_TYPE self" "state env = state self"
    "state_space env = \<lparr>low = lo, high = hi\<rparr>"
    "done_on_out_of_bound env = done_on_out_of_bound self"
    "DONE_ON_COLLISION env = DONE_ON_COLLISION self"
    "DONE_ON_COMPLETION env = DONE_ON_COMPLETION self"
    "currently_collided env = currently_collided self"
    "task_completed env = task_completed self"
    by (simp_all add: assms(4) set_observation_space_frame)
  have obs: "low (observation_space env) ! i = lo ! i" "high (observation_space env) ! i = hi ! i"
    if "i < ?n" for i
    using that assms by (simp_all add: observation_space_prefix)
  have oob: "(\<exists>i<?n. done_mask (QUAD_TYPE self) ! i = 1
                \<and> (state self ! i < low (observation_space env) ! i
                   \<or> state self ! i > high (observation_space env) ! i))
           = (\<exists>i<?n. done_mask (QUAD_TYPE self) ! i = 1
                \<and> (state self ! i < lo ! i \<or> state self ! i > hi ! i))"
    using obs by auto
  have any: "np_any (map2 (\<lambda>b m. (if b then 1 else 0) * m)
            (map2 (\<or>) (map2 (<) (state self) lo) (map2 (\<lambda>a b. a > b) (state self) hi))
            (done_mask (QUAD_TYPE self)))
         = (\<exists>i<?n. done_mask (QUAD_TYPE self) ! i = 1
                \<and> (state self ! i < low (observation_space env) ! i
                   \<or> state self ! i > high (observation_space env) ! i))"
    unfolding oob by (rule out_of_bound_any [OF assms(1-3)])
  have "get_done env =
          Inr ((done_on_out_of_bound self
                \<and> (\<exists>i<?n. done_mask (QUAD_TYPE self) ! i = 1
                      \<and> (state self ! i < low (observation_space env) ! i
                         \<or> state self ! i > high (observation_space env) ! i)))
               \<or> (currently_collided self \<and> DONE_ON_COLLISION self)
               \<or> (task_completed self \<and> DONE_ON_COMPLETION self))"
    unfolding get_done_def fr any [symmetric]
    using assms(1-3)
    by (auto simp: Let_def np_broadcast_same done_mask_length)
  then show ?thesis
    unfolding fr by (simp add: done_mask_def)
qed

text \<open>
  In the one-dimensional tracking environment with the goal appended to the observation:
  a height of \<open>3\<close> is above the bound \<open>2.5\<close> and ends the episode; an unbounded climb
  rate at a height of \<open>1\<close> does not.
\<close>

theorem get_done_iff_witness:
  "get_done (set_observation_space [0, - float32_max] [2.5, float32_max]
               (tracking_env\<lparr>obs_goal_horizon := 1, state := [3, 0]\<rparr>)) = Inr True
   \<and> get_done (set_observation_space [0, - float32_max] [2.5, float32_max]
               (tracking_env\<lparr>obs_goal_horizon := 1, state := [1, 2 * float32_max]\<rparr>)) = Inr False"
proof -
  let ?lo = "[0, - float32_max]" and ?hi = "[2.5, float32_max]"
  let ?a = "tracking_env\<lparr>obs_goal_horizon := 1, state := [3, 0]\<rparr>"
  let ?b = "tracking_env\<lparr>obs_goal_horizon := 1, state := [1, 2 * float32_max]\<rparr>"
  have qt: "QUAD_TYPE ?a = ONE_D" "QUAD_TYPE ?b = ONE_D"
    by (simp_all add: tracking_env_def)
  have a: "get_done (set_observation_space ?lo ?hi ?a) = Inr True"
    using get_done_iff [of ?a ?lo ?hi, OF _ _ _ refl]
    by (simp add: qt nx_def set_observation_space_def tracking_env_def racing_env_def done_mask_def
          Let_def less_Suc_eq numeral_2_eq_2 float32_max_def conj_disj_distribR ex_disj_distrib)
  have b: "get_done (set_observation_space ?lo ?hi ?b) = Inr False"
    using get_done_iff [of ?b ?lo ?hi, OF _ _ _ refl]
    by (simp add: qt nx_def set_observation_space_def tracking_env_def racing_env_def done_mask_def
          Let_def less_Suc_eq numeral_2_eq_2 float32_max_def conj_disj_distribR ex_disj_distrib)
  show ?thesis using a b by simp
qed

subsection \<open>Reward\<close>

text \<open>
  Claim C4. Under the competition cost the reward of a step is the sum of four independent
  contributions: \<open>+100\<close> for the gate-passage flag, \<open>+100\<close> for the at-goal flag,
  \<open>-1000\<close> for the collision flag and \<open>-100\<close> for a constraint violation; a step that
  passes a gate and collides, with nothing else active, yields \<open>100 - 1000 = -900\<close>.
\<close>

theorem sparse_reward:
  assumes "COST self = COMPETITION"
  shows "get_reward self =
           Inr ((if stepped_through_gate self then 100 else 0)
                + (if at_goal_pos self then 100 else 0)
                + (if currently_collided self then - 1000 else 0)
                + (if cnstr_violation self then - 100 else 0))
         \<and> (stepped_through_gate self \<and> currently_collided self
              \<and> \<not> at_goal_pos self \<and> \<not> cnstr_violation self
            \<longrightarrow> get_reward self = Inr (100 - 1000) \<and> get_reward self = Inr (- 900))"
  using assms by (simp add: get_reward_def Let_def)

theorem sparse_reward_witness:
  "get_reward (racing_env\<lparr>stepped_through_gate := True, currently_collided := True\<rparr>) = Inr (- 900)"
  using sparse_reward [of "racing_env\<lparr>stepped_through_gate := True, currently_collided := True\<rparr>"]
  by (simp add: racing_env_def)

lemma np_index_last:
  assumes "xs \<noteq> []" and "int (length xs) - 1 \<le> c"
  shows "np_index xs (min c (int (length xs) - 1)) = Inr (last xs)"
  using assms by (cases xs rule: rev_cases) (auto simp: np_index_def Let_def min_def nth_append)

lemma np_index_beyond:
  assumes "int (length xs) \<le> c"
  shows "np_index xs c = Inl IndexError"
  using assms by (simp add: np_index_def Let_def)

lemma quadratic_tracking_unclamped:
  assumes "COST self = QUADRATIC" and "TASK self = TRAJ_TRACKING X_GOAL"
      and "int (length X_GOAL) \<le> ctrl_step_counter self"
  shows "get_reward self = Inl IndexError"
  using assms by (simp add: get_reward_def np_index_beyond)

text \<open>
  Claim C5 says that under trajectory tracking the goal lookup of the reward clamps the
  control-step index to the last goal entry for every cost policy that reads the goal
  sequence. The reward of the \<^verbatim>\<open>RL_REWARD\<close> cost does (line 1056); the \<^verbatim>\<open>QUADRATIC\<close> cost
  indexes the goal array with the bare counter (line 1085). With three goal rows and the
  counter at \<open>3\<close>, the first returns the reward against the last row and the second
  raises \<^verbatim>\<open>IndexError\<close>.
\<close>

theorem quadratic_tracking_index_error:
  "get_reward (tracking_env\<lparr>COST := QUADRATIC\<rparr>) = Inl IndexError
   \<and> get_reward tracking_env = Inr (- 1)
   \<and> TASK tracking_env = TRAJ_TRACKING [[0, 0], [0.5, 0], [1, 0]]
   \<and> ctrl_step_counter tracking_env = 3"
  by (simp add: get_reward_def tracking_env_def racing_env_def np_index_def np_broadcast_def
        weighted_sq_def np_sum_def Let_def)


subsection \<open>Episode state machine\<close>

lemma collisions_snd:
  "snd (collisions p self) =
     self\<lparr>currently_collided :=
            (find (getContactPoints p) (GATES_IDS self @ OBSTACLES_IDS self @ [PLANE_ID self]) \<noteq> None)\<rparr>"
  by (simp add: collisions_def split: option.splits)

lemma gate_check_enabled_collided:
  "gate_check_enabled (self\<lparr>currently_collided := c\<rparr>) = gate_check_enabled self"
  by (simp add: gate_check_enabled_def NUM_GATES_def)

lemma gate_rays_collided:
  "gate_rays (self\<lparr>currently_collided := c\<rparr>) = gate_rays self"
  by (simp add: gate_rays_def)

lemma crossing_detected_collided:
  "crossing_detected p (self\<lparr>currently_collided := c\<rparr>) = crossing_detected p self"
  by (simp add: crossing_detected_def gate_check_enabled_collided gate_rays_collided)

lemma gates_progress_idle:
  assumes "\<not> gate_check_enabled self"
  shows "gates_progress p self = Inr (self, [])"
  using assms by (simp add: gates_progress_def)

lemma gates_progress_fields:
  assumes "gates_progress p self = Inr (self', calls)"
  shows "GATES self' = GATES self \<and> gates_pose self' = gates_pose self
    \<and> PYB_FREQ self' = PYB_FREQ self \<and> pyb_step_counter self' = pyb_step_counter self
    \<and> QUAD_TYPE self' = QUAD_TYPE self
    \<and> current_gate self' = current_gate self + (if crossing_detected p self then 1 else 0)
    \<and> stepped_through_gate self' =
       (if gate_check_enabled self then crossing_detected p self else stepped_through_gate self)
    \<and> (calls = []) = (\<not> gate_check_enabled self)"
proof (cases "gate_check_enabled self")
  case False
  then show ?thesis
    using assms by (simp add: gates_progress_def crossing_detected_def)
next
  case True
  then obtain fr to where r: "gate_rays self = Inr (fr, to)"
    using assms by (cases "gate_rays self") (auto simp: gates_progress_def)
  show ?thesis
  proof (cases "list_ex (\<lambda>r. r < 0.9999) (rayTestBatch p fr to)")
    case hit: True
    then have "self' = self\<lparr>stepped_through_gate := False\<rparr>
                  \<lparr>current_gate := current_gate self + 1, stepped_through_gate := True\<rparr>"
      and "calls = [(fr, to)]"
      using assms True r by (simp_all add: gates_progress_def Let_def)
    then show ?thesis
      using True r hit by (simp add: crossing_detected_def)
  next
    case miss: False
    then have "self' = self\<lparr>stepped_through_gate := False\<rparr>" and "calls = [(fr, to)]"
      using assms True r by (simp_all add: gates_progress_def Let_def)
    then show ?thesis
      using True r miss by (simp add: crossing_detected_def)
  qed
qed

lemma goal_position_fields:
  assumes "goal_position self = Inr (fl, self')"
  shows "GATES self' = GATES self \<and> gates_pose self' = gates_pose self
    \<and> PYB_FREQ self' = PYB_FREQ self \<and> pyb_step_counter self' = pyb_step_counter self
    \<and> QUAD_TYPE self' = QUAD_TYPE self
    \<and> current_gate self' = current_gate self
    \<and> stepped_through_gate self' = stepped_through_gate self"
proof (cases "current_gate self = NUM_GATES self \<and> QUAD_TYPE self = THREE_D")
  case False
  then have "self' = self"
    using assms by (auto simp: goal_position_def split: QuadType.splits if_splits)
  then show ?thesis by simp
next
  case True
  then obtain dist where d: "goal_distance self = Inr dist"
    using assms by (cases "goal_distance self") (auto simp: goal_position_def)
  let ?s1 = "if dist < stabilization_goal_tolerance self
             then self\<lparr>at_goal_pos := True, steps_at_goal_pos := steps_at_goal_pos self + 1\<rparr>
             else self\<lparr>at_goal_pos := False, steps_at_goal_pos := 0\<rparr>"
  have "self' = (if steps_at_goal_pos ?s1 > CTRL_FREQ ?s1 * 2
                 then ?s1\<lparr>task_completed := True\<rparr> else ?s1)"
    using assms True d by (simp add: goal_position_def Let_def)
  then show ?thesis
    by (simp split: if_splits)
qed


lemma get_info_fields:
  assumes "get_info p self = Inr (nfo, self', calls)"
  shows "GATES self' = GATES self \<and> gates_pose self' = gates_pose self
    \<and> PYB_FREQ self' = PYB_FREQ self \<and> pyb_step_counter self' = pyb_step_counter self
    \<and> QUAD_TYPE self' = QUAD_TYPE self
    \<and> current_gate self' = current_gate self + (if crossing_detected p self then 1 else 0)
    \<and> stepped_through_gate self' =
       (if gate_check_enabled self then crossing_detected p self else stepped_through_gate self)
    \<and> (calls = []) = (\<not> gate_check_enabled self)
    \<and> info_current_gate_id nfo =
       (if current_gate self' < NUM_GATES self' then current_gate self' else - 1)"
proof -
  let ?c = "find (getContactPoints p) (GATES_IDS self @ OBSTACLES_IDS self @ [PLANE_ID self]) \<noteq> None"
  let ?s1 = "self\<lparr>currently_collided := ?c\<rparr>"
  obtain col where c: "collisions p self = (col, ?s1)"
    using collisions_snd [of p self] by (cases "collisions p self") simp
  obtain self2 where gp: "gates_progress p ?s1 = Inr (self2, calls)"
    using assms c by (auto simp: get_info_def bind_eq_Inr Let_def split: if_splits)
  obtain fl where go: "goal_position self2 = Inr (fl, self')"
    and id: "info_current_gate_id nfo =
       (if current_gate self2 < NUM_GATES self2 then current_gate self2 else - 1)"
    using assms c gp by (auto simp: get_info_def bind_eq_Inr Let_def split: if_splits)
  note a = gates_progress_fields [OF gp] and b = goal_position_fields [OF go]
  show ?thesis
    using a b id
    by (simp add: gate_check_enabled_collided crossing_detected_collided NUM_GATES_def)
qed

lemma advance_fields:
  "GATES (advance b p self) = GATES self" "gates_pose (advance b p self) = gates_pose self"
  "PYB_FREQ (advance b p self) = PYB_FREQ self" "QUAD_TYPE (advance b p self) = QUAD_TYPE self"
  "current_gate (advance b p self) = current_gate self"
  "stepped_through_gate (advance b p self) = stepped_through_gate self"
  "pyb_step_counter (advance b p self) = new_pyb_step_counter b"
  by (simp_all add: advance_def)

lemma step_fields:
  assumes "step b p self = Inr (self', rew, dn, nfo)"
  shows "GATES self' = GATES self \<and> gates_pose self' = gates_pose self
    \<and> PYB_FREQ self' = PYB_FREQ self
    \<and> current_gate self' = current_gate self + (if passage_detected b p self then 1 else 0)
    \<and> stepped_through_gate self' =
       (if gate_check_enabled (advance b p self) then passage_detected b p self
        else stepped_through_gate self)
    \<and> info_current_gate_id nfo =
       (if current_gate self' < NUM_GATES self' then current_gate self' else - 1)"
proof -
  obtain calls where gi: "get_info p (advance b p self) = Inr (nfo, self', calls)"
    using assms by (auto simp: step_def bind_eq_Inr)
  show ?thesis
    using get_info_fields [OF gi] by (simp add: advance_fields passage_detected_def)
qed

lemma crossing_detected_bound:
  assumes "crossing_detected p self"
  shows "current_gate self < NUM_GATES self"
  using assms by (simp add: crossing_detected_def gate_check_enabled_def)

lemma NUM_GATES_cong: "GATES self' = GATES self \<Longrightarrow> NUM_GATES self' = NUM_GATES self"
  by (simp add: NUM_GATES_def)

lemma step_bound:
  assumes "step b p self = Inr (self', rew, dn, nfo)" and "current_gate self \<le> NUM_GATES self"
  shows "current_gate self' \<le> NUM_GATES self'"
proof -
  note f = step_fields [OF assms(1)]
  have "passage_detected b p self \<Longrightarrow> current_gate self < NUM_GATES self"
    using crossing_detected_bound [of p "advance b p self"]
    by (simp add: passage_detected_def NUM_GATES_def advance_fields)
  then show ?thesis
    using f assms(2) by (auto simp: NUM_GATES_def)
qed


lemma reset_fields:
  assumes "reset kwargs rng p self = Inr (self', init, nfo)"
      and "real_of_int (pyb_step_counter self) \<le> 0.5 * real_of_int (PYB_FREQ self)"
  shows "GATES self' = GATES self \<and> PYB_FREQ self' = PYB_FREQ self
    \<and> current_gate self' = (case initial_target_gate_id kwargs of Some g \<Rightarrow> g | None \<Rightarrow> 0)
    \<and> \<not> stepped_through_gate self'"
  using assms
  apply (simp add: reset_def Let_def bind_eq_Inr split: if_splits)
  apply (elim exE conjE)
  apply (drule get_info_fields)
  apply (simp add: gate_check_enabled_def crossing_detected_def)
  done

lemma run_Cons:
  assumes "run (bp # rest) self = Inr trace"
  obtains self1 rew dn nfo trace' where
    "step (fst bp) (snd bp) self = Inr (self1, rew, dn, nfo)"
    "run rest self1 = Inr trace'" "trace = self1 # trace'"
  using assms by (auto simp: bind_eq_Inr)

lemma run_length: "run ticks self = Inr trace \<Longrightarrow> length trace = length ticks"
proof (induction ticks arbitrary: self trace)
  case Nil
  then show ?case by simp
next
  case (Cons bp rest)
  from Cons.prems obtain self1 rew dn nfo trace' where
    "step (fst bp) (snd bp) self = Inr (self1, rew, dn, nfo)"
    "run rest self1 = Inr trace'" "trace = self1 # trace'"
    by (rule run_Cons)
  then show ?case using Cons.IH by simp
qed

lemma run_steps:
  assumes "run ticks self = Inr trace" and "k < length ticks"
  shows "\<exists>rew dn nfo. step (fst (ticks ! k)) (snd (ticks ! k)) ((self # trace) ! k)
            = Inr ((self # trace) ! Suc k, rew, dn, nfo)"
  using assms
proof (induction ticks arbitrary: self trace k)
  case Nil
  then show ?case by simp
next
  case (Cons bp rest)
  from Cons.prems(1) obtain self1 rew dn nfo trace' where
    st: "step (fst bp) (snd bp) self = Inr (self1, rew, dn, nfo)"
    and rn: "run rest self1 = Inr trace'" and tr: "trace = self1 # trace'"
    by (rule run_Cons)
  show ?case
  proof (cases k)
    case 0
    then show ?thesis using st tr by simp
  next
    case (Suc j)
    then have "j < length rest" using Cons.prems(2) by simp
    from Cons.IH [OF rn this] show ?thesis using Suc tr by simp
  qed
qed

lemma run_invariant:
  assumes "run ticks self = Inr trace" and "k \<le> length ticks"
      and "0 \<le> current_gate self" and "current_gate self \<le> NUM_GATES self"
  shows "GATES ((self # trace) ! k) = GATES self
       \<and> current_gate self \<le> current_gate ((self # trace) ! k)
       \<and> current_gate ((self # trace) ! k) \<le> NUM_GATES self"
  using assms
proof (induction ticks arbitrary: self trace k)
  case Nil
  then show ?case by simp
next
  case (Cons bp rest)
  from Cons.prems(1) obtain self1 rew dn nfo trace' where
    st: "step (fst bp) (snd bp) self = Inr (self1, rew, dn, nfo)"
    and rn: "run rest self1 = Inr trace'" and tr: "trace = self1 # trace'"
    by (rule run_Cons)
  note f = step_fields [OF st]
  have g: "GATES self1 = GATES self" and n: "NUM_GATES self1 = NUM_GATES self"
    using f by (simp_all add: NUM_GATES_def)
  have up: "current_gate self \<le> current_gate self1" using f by simp
  have b: "current_gate self1 \<le> NUM_GATES self1"
    using step_bound [OF st Cons.prems(4)] .
  show ?case
  proof (cases k)
    case 0
    then show ?thesis using Cons.prems by simp
  next
    case (Suc j)
    then have "j \<le> length rest" using Cons.prems(2) by simp
    from Cons.IH [OF rn this _ b] up Cons.prems(3)
    show ?thesis using Suc tr g n by simp
  qed
qed

lemma run_count:
  assumes "run ticks self = Inr trace"
  shows "current_gate (last (self # trace))
           = current_gate self + int (length (filter (\<lambda>d. d) (detections ticks (self # trace))))"
  using assms
proof (induction ticks arbitrary: self trace)
  case Nil
  then show ?case by (simp add: detections_def)
next
  case (Cons bp rest)
  from Cons.prems(1) obtain self1 rew dn nfo trace' where
    st: "step (fst bp) (snd bp) self = Inr (self1, rew, dn, nfo)"
    and rn: "run rest self1 = Inr trace'" and tr: "trace = self1 # trace'"
    by (rule run_Cons)
  note f = step_fields [OF st]
  have d: "detections (bp # rest) (self # self1 # trace')
             = passage_detected (fst bp) (snd bp) self # detections rest (self1 # trace')"
    by (simp add: detections_def)
  show ?case
    using Cons.IH [OF rn] f unfolding tr d by simp
qed


subsection \<open>The racing episode, step by step\<close>

lemmas eval_defs =
  reset_def step_def advance_def get_info_def collisions_def gates_progress_def
  gate_check_enabled_def gate_rays_def goal_position_def goal_distance_def get_done_def
  get_reward_def np_index_def np_broadcast_def np_any_def racing_env_def free_flight_def
  in_gate_def tick_def no_randomization_def initial_state_def default_start_def gate_start_def
  placed_def vec3_add_def NUM_GATES_def GATE_Z_LOW_def GATE_Z_HIGH_def OBSTACLE_Z_def Let_def
  done_mask_def dict_get_def INIT_STATE_LABELS_def float32_max_def
  racing_start_def racing_state_1_def racing_state_2_def racing_state_3_def racing_state_4_def

lemma racing_reset:
  "map_sum id fst (reset \<lparr>initial_target_gate_id = None\<rparr> no_randomization free_flight racing_env)
     = Inr racing_start"
  by (simp add: eval_defs)

lemma racing_step_1: "map_sum id fst (step (tick 0) in_gate racing_start) = Inr racing_state_1"
  by (simp add: eval_defs)

lemma racing_step_2: "map_sum id fst (step (tick 1) free_flight racing_state_1) = Inr racing_state_2"
  by (simp add: eval_defs)

lemma racing_step_3: "map_sum id fst (step (tick 2) in_gate racing_state_2) = Inr racing_state_3"
  by (simp add: eval_defs)

lemma racing_step_4: "map_sum id fst (step (tick 3) free_flight racing_state_3) = Inr racing_state_4"
  by (simp add: eval_defs)

lemma run_Cons_eval:
  assumes "map_sum id fst (step (fst bp) (snd bp) self) = Inr self1" and "run rest self1 = Inr trace"
  shows "run (bp # rest) self = Inr (self1 # trace)"
  using assms by (cases "step (fst bp) (snd bp) self") auto

lemma racing_run:
  "run racing_ticks racing_start = Inr [racing_state_1, racing_state_2, racing_state_3, racing_state_4]"
  unfolding racing_ticks_def
  by (intro run_Cons_eval) (simp_all add: racing_step_1 racing_step_2 racing_step_3 racing_step_4)

lemma racing_episode:
  "episode \<lparr>initial_target_gate_id = None\<rparr> no_randomization free_flight racing_ticks racing_env
     = Inr [racing_start, racing_state_1, racing_state_2, racing_state_3, racing_state_4]"
  using racing_reset racing_run
  by (cases "reset \<lparr>initial_target_gate_id = None\<rparr> no_randomization free_flight racing_env")
     (auto simp: episode_def)

lemma racing_detections:
  "detections racing_ticks [racing_start, racing_state_1, racing_state_2, racing_state_3, racing_state_4]
     = [True, False, True, False]"
  by (simp add: detections_def racing_ticks_def passage_detected_def crossing_detected_def eval_defs)


lemma racing_step_3_full:
  "step (tick 2) in_gate racing_state_2
     = Inr (racing_state_3, 100, False,
            \<lparr>info_collision = (None, False), info_current_gate_id = - 1,
             info_at_goal_position = False, info_task_completed = False\<rparr>)"
  by (simp add: eval_defs)

lemma reset_gate_id_beyond:
  assumes "initial_target_gate_id kwargs = Some g" and "NUM_GATES self \<le> g" and "g \<noteq> 0"
  shows "\<exists>e. reset kwargs rng p self = Inl e"
  using assms by (simp add: reset_def Let_def initial_state_def gate_start_def NUM_GATES_def)

text \<open>
  Claim C2. In an episode started at gate index 0 (no \<^verbatim>\<open>initial_target_gate_id\<close>, or \<open>0\<close>)
  with the physics-step counter of the reset inside the settling window, the current-gate
  counter is \<open>0\<close> after the reset, grows by exactly one in every step whose passage check
  detects a crossing and stays as it is in every other step, never decreases, stays
  between \<open>0\<close> and \<^verbatim>\<open>NUM_GATES\<close>, and equals the number of detections so far: once
  \<^verbatim>\<open>NUM_GATES\<close> passages were detected it equals \<^verbatim>\<open>NUM_GATES\<close>.
\<close>

theorem current_gate_counter:
  assumes "episode kwargs rng p0 ticks self = Inr states"
      and "initial_target_gate_id kwargs = None \<or> initial_target_gate_id kwargs = Some 0"
      and "real_of_int (pyb_step_counter self) \<le> 0.5 * real_of_int (PYB_FREQ self)"
  shows "length states = Suc (length ticks)
       \<and> current_gate (states ! 0) = 0
       \<and> (\<forall>k<length ticks.
             current_gate (states ! Suc k)
               = current_gate (states ! k)
                 + (if passage_detected (fst (ticks ! k)) (snd (ticks ! k)) (states ! k)
                    then 1 else 0))
       \<and> (\<forall>k\<le>length ticks.
             0 \<le> current_gate (states ! k) \<and> current_gate (states ! k) \<le> NUM_GATES self)
       \<and> current_gate (last states) = int (length (filter (\<lambda>d. d) (detections ticks states)))
       \<and> (int (length (filter (\<lambda>d. d) (detections ticks states))) = NUM_GATES self
            \<longrightarrow> current_gate (last states) = NUM_GATES self)"
proof -
  from assms(1) obtain self1 init nfo trace where
    rs: "reset kwargs rng p0 self = Inr (self1, init, nfo)"
    and rn: "run ticks self1 = Inr trace" and st: "states = self1 # trace"
    by (auto simp: episode_def bind_eq_Inr)
  note r = reset_fields [OF rs assms(3)]
  have z: "current_gate self1 = 0"
    using r assms(2) by auto
  have n: "NUM_GATES self1 = NUM_GATES self"
    using r by (simp add: NUM_GATES_def)
  have le: "current_gate self1 \<le> NUM_GATES self1"
    using z by (simp add: NUM_GATES_def)
  have len: "length states = Suc (length ticks)"
    using run_length [OF rn] st by simp
  have stp: "current_gate (states ! Suc k)
               = current_gate (states ! k)
                 + (if passage_detected (fst (ticks ! k)) (snd (ticks ! k)) (states ! k)
                    then 1 else 0)" if "k < length ticks" for k
  proof -
    from run_steps [OF rn that] obtain rew dn nfo' where
      "step (fst (ticks ! k)) (snd (ticks ! k)) (states ! k) = Inr (states ! Suc k, rew, dn, nfo')"
      unfolding st by blast
    from step_fields [OF this] show ?thesis by simp
  qed
  have inv: "0 \<le> current_gate (states ! k) \<and> current_gate (states ! k) \<le> NUM_GATES self"
    if "k \<le> length ticks" for k
    using run_invariant [OF rn that _ le] z n unfolding st by simp
  have cnt: "current_gate (last states) = int (length (filter (\<lambda>d. d) (detections ticks states)))"
    using run_count [OF rn] z unfolding st by simp
  show ?thesis
    using len z stp inv cnt st by simp
qed


theorem current_gate_counter_witness:
  "\<exists>states. episode \<lparr>initial_target_gate_id = None\<rparr> no_randomization free_flight racing_ticks
               racing_env = Inr states
     \<and> length states = 5
     \<and> map current_gate states = [0, 1, 1, 2, 2]
     \<and> detections racing_ticks states = [True, False, True, False]
     \<and> current_gate (last states) = NUM_GATES racing_env"
proof -
  let ?states = "[racing_start, racing_state_1, racing_state_2, racing_state_3, racing_state_4]"
  let ?kw = "\<lparr>initial_target_gate_id = None\<rparr>"
  have ep: "episode ?kw no_randomization free_flight racing_ticks racing_env = Inr ?states"
    by (rule racing_episode)
  have first: "initial_target_gate_id ?kw = None \<or> initial_target_gate_id ?kw = Some 0"
    by simp
  have settle: "real_of_int (pyb_step_counter racing_env) \<le> 0.5 * real_of_int (PYB_FREQ racing_env)"
    by (simp add: racing_env_def)
  note counter = current_gate_counter [OF ep first settle]
  have n: "NUM_GATES racing_env = 2"
    by (simp add: NUM_GATES_def racing_env_def)
  have "int (length (filter (\<lambda>d. d) (detections racing_ticks ?states))) = NUM_GATES racing_env"
    by (simp add: racing_detections n)
  with counter have l: "current_gate (last ?states) = NUM_GATES racing_env"
    by blast
  have m: "map current_gate ?states = [0, 1, 1, 2, 2]"
    by (simp add: racing_start_def racing_state_1_def racing_state_2_def racing_state_3_def
          racing_state_4_def racing_env_def)
  show ?thesis
    using ep l m racing_detections by (intro exI [of _ ?states]) simp
qed

text \<open>
  Claim C3 says that \<^verbatim>\<open>stepped_through_gate\<close> is true in exactly the steps whose passage
  check detected a crossing. The flag is cleared only inside the block that runs the check
  (line 1232); once the last gate is passed the block is skipped and the flag keeps its
  value. In the racing episode the last gate is passed in the third step; in the fourth
  step nothing is detected and the flag is still set.
\<close>

theorem stepped_through_gate_stays_set:
  "map_sum id (\<lambda>states. (map stepped_through_gate states, detections racing_ticks states))
     (episode \<lparr>initial_target_gate_id = None\<rparr> no_randomization free_flight racing_ticks racing_env)
   = Inr ([False, True, False, True, True], [True, False, True, False])"
proof -
  have flags: "map stepped_through_gate
                 [racing_start, racing_state_1, racing_state_2, racing_state_3, racing_state_4]
               = [False, True, False, True, True]"
    by (simp add: racing_start_def racing_state_1_def racing_state_2_def racing_state_3_def
          racing_state_4_def racing_env_def)
  show ?thesis
    unfolding racing_episode by (simp only: map_sum.simps flags racing_detections)
qed

text \<open>
  Claim C8 says that a reset with an \<^verbatim>\<open>initial_target_gate_id\<close> outside
  \<open>[0, NUM_GATES)\<close> fails. The assertion of line 529 checks the upper bound only. With two
  gates and the id \<open>-1\<close> the reset returns: the counter is \<open>-1\<close> and the drone starts in the
  pose \<^verbatim>\<open>_gates_pose[-2]\<close>, the pose of gate 0.
\<close>

theorem reset_negative_gate_id_accepted:
  "map_sum id (\<lambda>(s, i, n). (current_gate s, INIT_XYZ i, INIT_RPY i, info_current_gate_id n))
     (reset \<lparr>initial_target_gate_id = Some (- 1)\<rparr> no_randomization free_flight racing_env)
   = Inr (- 1, (0, - 3, 0.525), (0, 0, 0), - 1)"
  by (simp add: eval_defs)

text \<open>
  Claim C9. In the info dictionary a step returns, \<^verbatim>\<open>current_gate_id\<close> is the current gate
  counter while the counter is below \<^verbatim>\<open>NUM_GATES\<close> and \<open>-1\<close> once the counter has reached
  \<^verbatim>\<open>NUM_GATES\<close>; it is never \<^verbatim>\<open>NUM_GATES\<close> itself.
\<close>

theorem current_gate_id_sentinel:
  assumes "step b p self = Inr (self', rew, dn, nfo)"
  shows "(current_gate self' < NUM_GATES self' \<longrightarrow> info_current_gate_id nfo = current_gate self')
       \<and> (current_gate self' = NUM_GATES self' \<longrightarrow> info_current_gate_id nfo = - 1)
       \<and> info_current_gate_id nfo \<noteq> NUM_GATES self'"
  using step_fields [OF assms] by (auto simp: NUM_GATES_def)

theorem current_gate_id_sentinel_witness:
  "step (tick 2) in_gate racing_state_2
     = Inr (racing_state_3, 100, False,
            \<lparr>info_collision = (None, False), info_current_gate_id = - 1,
             info_at_goal_position = False, info_task_completed = False\<rparr>)
   \<and> current_gate racing_state_3 = NUM_GATES racing_state_3
   \<and> info_current_gate_id
        \<lparr>info_collision = (None, False), info_current_gate_id = - 1,
         info_at_goal_position = False, info_task_completed = False\<rparr> \<noteq> NUM_GATES racing_state_3"
  using current_gate_id_sentinel [OF racing_step_3_full] racing_step_3_full
  by (simp add: NUM_GATES_def racing_state_3_def racing_state_2_def racing_state_1_def
        racing_start_def racing_env_def)

text \<open>
  Claim C10. When the physics-step counter is at most \<open>0.5 * PYB_FREQ\<close>, or there are no
  gates, or the current-gate counter already equals \<^verbatim>\<open>NUM_GATES\<close>, the gates-progress block
  makes no ray query and leaves the environment as it is; the info call and the step around
  it do not advance the current-gate counter.
\<close>

theorem gate_check_suppressed:
  assumes "real_of_int (pyb_step_counter self) \<le> 0.5 * real_of_int (PYB_FREQ self)
           \<or> NUM_GATES self = 0 \<or> current_gate self = NUM_GATES self"
  shows "gates_progress p self = Inr (self, [])
       \<and> (\<forall>nfo self' calls. get_info p self = Inr (nfo, self', calls)
             \<longrightarrow> calls = [] \<and> current_gate self' = current_gate self)
       \<and> (\<forall>b self0 self' rew dn nfo.
             self = advance b p self0 \<and> step b p self0 = Inr (self', rew, dn, nfo)
             \<longrightarrow> current_gate self' = current_gate self0)"
proof -
  have off: "\<not> gate_check_enabled self"
    using assms by (auto simp: gate_check_enabled_def)
  then have nd: "\<not> crossing_detected p self"
    by (simp add: crossing_detected_def)
  have a: "gates_progress p self = Inr (self, [])"
    by (rule gates_progress_idle [OF off])
  have b: "calls = [] \<and> current_gate self' = current_gate self"
    if "get_info p self = Inr (nfo, self', calls)" for nfo self' calls
    using get_info_fields [OF that] off nd by simp
  have c: "current_gate self' = current_gate self0"
    if "self = advance b p self0" "step b p self0 = Inr (self', rew, dn, nfo)"
    for b self0 self' rew dn nfo
    using step_fields [OF that(2)] nd that(1) by (simp add: passage_detected_def)
  show ?thesis
    using a b c by blast
qed

theorem gate_check_suppressed_witness:
  "gates_progress free_flight racing_state_4 = Inr (racing_state_4, [])
   \<and> current_gate racing_state_4 = NUM_GATES racing_state_4
   \<and> gates_progress in_gate racing_start = Inr (racing_start, [])
   \<and> pyb_step_counter racing_start = 0"
proof -
  have h4: "real_of_int (pyb_step_counter racing_state_4) \<le> 0.5 * real_of_int (PYB_FREQ racing_state_4)
           \<or> NUM_GATES racing_state_4 = 0 \<or> current_gate racing_state_4 = NUM_GATES racing_state_4"
    by (simp add: NUM_GATES_def racing_state_4_def racing_state_3_def racing_state_2_def
          racing_state_1_def racing_start_def racing_env_def)
  have h0: "real_of_int (pyb_step_counter racing_start) \<le> 0.5 * real_of_int (PYB_FREQ racing_start)
           \<or> NUM_GATES racing_start = 0 \<or> current_gate racing_start = NUM_GATES racing_start"
    by (simp add: racing_start_def racing_env_def)
  have "current_gate racing_state_4 = NUM_GATES racing_state_4"
    by (simp add: NUM_GATES_def racing_state_4_def racing_state_3_def racing_state_2_def
          racing_state_1_def racing_start_def racing_env_def)
  moreover have "pyb_step_counter racing_start = 0"
    by (simp add: racing_start_def racing_env_def)
  ultimately show ?thesis
    using gate_check_suppressed [OF h4, of free_flight] gate_check_suppressed [OF h0, of in_gate]
    by blast
qed

end
